theory Spec2Isabelle
  imports Main
begin

section \<open>The PingSource reconciler (pkg/reconciler/pingsource/pingsource.go)\<close>

text \<open>
  A shallow embedding of the reconciler of PingSource objects. The Go code talks to four
  collaborators that are not part of the file: the listers (informer caches), the
  Kubernetes client, the sink resolver and the tracker; and it calls builders of the
  repository's \<open>resources\<close> packages. The builders, the resolver, the tracker and the
  library predicates are parameters of the model (the record \<open>env\<close>); the listers and
  the client are modelled by a \<open>world\<close>: what each lister answers, what the API server
  stores, which client calls fail, and the effects made so far (client calls, recorded
  events, resolver calls, tracked references), each in order.
\<close>

subsection \<open>Errors and events\<close>

datatype StatusReason =
    StatusReasonNotFound
  | StatusReasonAlreadyExists
  | StatusReasonConflict
  | StatusReasonInternalError
  | StatusReasonServerTimeout

datatype EventType = EventTypeNormal | EventTypeWarning

text \<open>
  A Go \<open>error\<close> value. \<open>StatusError\<close> is an API status error with its reason,
  \<open>OtherError\<close> any other error by its text, \<open>Errorf\<close> the result of
  \<open>fmt.Errorf(format, args...)\<close> and \<open>NewEvent\<close> the result of
  \<open>pkgreconciler.NewEvent(type, reason, format, args...)\<close>. Formats are kept with their
  arguments instead of being rendered.
\<close>

datatype error =
    StatusError StatusReason
  | OtherError string
  | Errorf string "arg list"
  | NewEvent EventType string string "arg list"
and arg =
    S string
  | E error
  | Sprintf string "arg list"

text \<open>\<open>apierrors.IsNotFound\<close>: an API status error whose reason is NotFound.\<close>

fun IsNotFound :: "error \<Rightarrow> bool" where
  "IsNotFound (StatusError r) = (r = StatusReasonNotFound)"
| "IsNotFound (OtherError m) = False"
| "IsNotFound (Errorf f as) = False"
| "IsNotFound (NewEvent t r f as) = False"

text \<open>An event given to the event recorder: type, reason, format, arguments.\<close>

datatype recorded = Recorded EventType string string "arg list"

text \<open>
  What a Go function does: it returns a value, returns an error, or panics (a write to
  a nil map, a nil pointer dereference).
\<close>

datatype 'a ret = Ret 'a | Err error | Panic

definition pingSourceDeploymentCreated :: string where
  "pingSourceDeploymentCreated = ''PingSourceDeploymentCreated''"

definition pingSourceDeploymentUpdated :: string where
  "pingSourceDeploymentUpdated = ''PingSourceDeploymentUpdated''"

definition pingSourceDeploymentDeleted :: string where
  "pingSourceDeploymentDeleted = ''PingSourceDeploymentDeleted''"

definition pingSourceServiceAccountCreated :: string where
  "pingSourceServiceAccountCreated = ''PingSourceServiceAccountCreated''"

definition pingSourceRoleBindingCreated :: string where
  "pingSourceRoleBindingCreated = ''PingSourceRoleBindingCreated''"

definition component :: string where
  "component = ''pingsource''"

definition mtadapterName :: string where
  "mtadapterName = ''pingsource-mt-adapter''"

definition stadapterClusterRoleName :: string where
  "stadapterClusterRoleName = ''knative-eventing-pingsource-adapter''"

subsection \<open>Objects\<close>

record OwnerReference =
  ownerUID :: string
  ownerController :: "bool option"

record ObjectMeta =
  Namespace :: string
  Name :: string
  UID :: string
  OwnerReferences :: "OwnerReference list"
  Annotations :: "string \<rightharpoonup> string"

record ServiceAccount = ObjectMeta +
  Secrets :: "string list"

record RoleBinding = ObjectMeta +
  RoleRef :: string

text \<open>
  A Deployment: its metadata and \<open>Spec.Template.Spec\<close>, the pod spec, of a type \<open>'p\<close>
  that the model leaves open.
\<close>

record 'p Deployment = ObjectMeta +
  SpecTemplateSpec :: 'p

record KReference =
  refKind :: string
  refNamespace :: string
  refName :: string
  refAPIVersion :: string

record Destination =
  Ref :: "KReference option"
  URI :: "string option"

record PingSourceSpec =
  Sink :: Destination
  Schedule :: string
  JsonData :: string

record CloudEventAttributes =
  ceType :: string
  ceSource :: string

text \<open>
  The status of a source. Its condition set is changed only through the lifecycle
  methods of the API package, which is not part of the file: the status keeps the calls
  made on it, in order (\<open>Marks\<close>). \<open>StatusAnnotations\<close> is the Go map
  \<open>Status.Annotations\<close>, \<open>None\<close> when the map is nil.
\<close>

datatype 'p mark =
    MarkNoSink string string
  | MarkSink string
  | MarkSchedule
  | PropagateDeploymentAvailability "'p Deployment"

record 'p PingSourceStatus =
  StatusAnnotations :: "(string \<rightharpoonup> string) option"
  Marks :: "'p mark list"
  StatusCloudEventAttributes :: "CloudEventAttributes list"

record 'p PingSource = ObjectMeta +
  Spec :: PingSourceSpec
  Status :: "'p PingSourceStatus"

record 'p Args =
  ArgsImage :: string
  ArgsSource :: "'p PingSource"
  ArgsLabels :: "string \<rightharpoonup> string"
  ArgsSinkURI :: string
  ArgsLoggingConfig :: string
  ArgsMetricsConfig :: string

record MTArgs =
  MTServiceAccountName :: string
  MTAdapterName :: string
  MTImage :: string
  MTLoggingConfig :: string
  MTMetricsConfig :: string
  MTLeConfig :: string

record Reference =
  trAPIVersion :: string
  trKind :: string
  trNamespace :: string
  trName :: string

record ConfigMap =
  cmName :: string
  Data :: "(string \<rightharpoonup> string) option"

record ExporterOptions =
  opDomain :: string
  opComponent :: string
  opConfigMap :: "(string \<rightharpoonup> string) option"

text \<open>
  The fields of the Go struct \<open>Reconciler\<close> that hold values; its listers, client,
  resolver and tracker are in \<open>world\<close> and \<open>env\<close>. \<open>'c\<close> is the logging
  configuration type.
\<close>

record 'c Reconciler =
  receiveAdapterImage :: string
  receiveMTAdapterImage :: string
  loggingConfig :: "'c option"
  metricsConfig :: "ExporterOptions option"
  leConfig :: string

subsection \<open>Parameters: code outside the file\<close>

record ('p, 'c) env =
  URIFromDestinationV1 :: "Destination \<Rightarrow> 'p PingSource \<Rightarrow> error + string"
  jsonMarshal :: "Destination \<Rightarrow> string"
  ScopeAnnotationKey :: string
  ScopeCluster :: string
  CreateReceiveAdapterName :: "string \<Rightarrow> string \<Rightarrow> string"
  GenerateFixedName :: "'p PingSource \<Rightarrow> string \<Rightarrow> string"
  MakeServiceAccount :: "'p PingSource \<Rightarrow> string \<Rightarrow> ServiceAccount"
  MakeRoleBinding :: "'p PingSource \<Rightarrow> string \<Rightarrow> string \<Rightarrow> RoleBinding"
  ResourceLabels :: "string \<Rightarrow> (string \<rightharpoonup> string)"
  MakeReceiveAdapter :: "'p Args \<Rightarrow> 'p Deployment"
  MakeMTReceiveAdapter :: "MTArgs \<Rightarrow> 'p Deployment"
  DeepDerivative :: "'p \<Rightarrow> 'p \<Rightarrow> bool"
  LoggingConfigToJson :: "'c option \<Rightarrow> string \<times> error option"
  MetricsOptionsToJson :: "ExporterOptions option \<Rightarrow> string \<times> error option"
  TrackReference :: "Reference \<Rightarrow> 'p PingSource \<Rightarrow> error option"
  systemNamespace :: string
  PingSourceEventType :: string
  PingSourceSource :: "string \<Rightarrow> string \<Rightarrow> string"
  NewConfigFromConfigMap :: "ConfigMap option \<Rightarrow> 'c option ret"
  metricsDomain :: string

subsection \<open>The world: listers, API server, effects\<close>

datatype 'p call =
    CreateServiceAccount string ServiceAccount
  | CreateRoleBinding string RoleBinding
  | CreateDeployment string "'p Deployment"
  | UpdateDeployment string "'p Deployment"
  | DeleteDeployment string string

record 'p world =
  serviceAccountLister :: "string \<Rightarrow> string \<Rightarrow> error + ServiceAccount"
  roleBindingLister :: "string \<Rightarrow> string \<Rightarrow> error + RoleBinding"
  deploymentLister :: "string \<Rightarrow> string \<Rightarrow> error + 'p Deployment"
  serviceAccounts :: "(string \<times> ServiceAccount) list"
  roleBindings :: "(string \<times> RoleBinding) list"
  deployments :: "(string \<times> 'p Deployment) list"
  fault :: "'p call \<Rightarrow> error option"
  calls :: "'p call list"
  events :: "recorded list"
  resolved :: "Destination list"
  tracked :: "Reference list"

text \<open>
  The API server keeps the objects of a kind as a list of (namespace, object); an object
  is found by the namespace of the request and its own name.
\<close>

definition lookup ::
  "(string \<times> 'z ObjectMeta_scheme) list \<Rightarrow> string \<Rightarrow> string \<Rightarrow> 'z ObjectMeta_scheme option" where
  "lookup st ns n = map_option snd (find (\<lambda>(m, x). m = ns \<and> Name x = n) st)"

definition storeCreate ::
  "(string \<times> 'z ObjectMeta_scheme) list \<Rightarrow> string \<Rightarrow> 'z ObjectMeta_scheme
     \<Rightarrow> error + (string \<times> 'z ObjectMeta_scheme) list" where
  "storeCreate st ns x =
     (case lookup st ns (Name x) of
        Some y \<Rightarrow> Inl (StatusError StatusReasonAlreadyExists)
      | None \<Rightarrow> Inr (st @ [(ns, x)]))"

definition storeUpdate ::
  "(string \<times> 'z ObjectMeta_scheme) list \<Rightarrow> string \<Rightarrow> 'z ObjectMeta_scheme
     \<Rightarrow> error + (string \<times> 'z ObjectMeta_scheme) list" where
  "storeUpdate st ns x =
     (case lookup st ns (Name x) of
        None \<Rightarrow> Inl (StatusError StatusReasonNotFound)
      | Some y \<Rightarrow> Inr (map (\<lambda>(m, y). if m = ns \<and> Name y = Name x then (ns, x) else (m, y)) st))"

definition storeDelete ::
  "(string \<times> 'z ObjectMeta_scheme) list \<Rightarrow> string \<Rightarrow> string
     \<Rightarrow> error + (string \<times> 'z ObjectMeta_scheme) list" where
  "storeDelete st ns n =
     (case lookup st ns n of
        None \<Rightarrow> Inl (StatusError StatusReasonNotFound)
      | Some y \<Rightarrow> Inr (filter (\<lambda>(m, y). \<not> (m = ns \<and> Name y = n)) st))"

text \<open>
  A client call is added to \<open>calls\<close>, then fails with the error \<open>fault\<close> gives it, if
  any, and is answered by the store otherwise.
\<close>

definition clientCreateServiceAccount ::
  "string \<Rightarrow> ServiceAccount \<Rightarrow> 'p world \<Rightarrow> (error + ServiceAccount) \<times> 'p world" where
  "clientCreateServiceAccount ns sa w =
     (let w' = w\<lparr>calls := calls w @ [CreateServiceAccount ns sa]\<rparr> in
      case fault w (CreateServiceAccount ns sa) of
        Some e \<Rightarrow> (Inl e, w')
      | None \<Rightarrow>
          (case storeCreate (serviceAccounts w) ns sa of
             Inl e \<Rightarrow> (Inl e, w')
           | Inr st \<Rightarrow> (Inr sa, w'\<lparr>serviceAccounts := st\<rparr>)))"

definition clientCreateRoleBinding ::
  "string \<Rightarrow> RoleBinding \<Rightarrow> 'p world \<Rightarrow> (error + RoleBinding) \<times> 'p world" where
  "clientCreateRoleBinding ns rb w =
     (let w' = w\<lparr>calls := calls w @ [CreateRoleBinding ns rb]\<rparr> in
      case fault w (CreateRoleBinding ns rb) of
        Some e \<Rightarrow> (Inl e, w')
      | None \<Rightarrow>
          (case storeCreate (roleBindings w) ns rb of
             Inl e \<Rightarrow> (Inl e, w')
           | Inr st \<Rightarrow> (Inr rb, w'\<lparr>roleBindings := st\<rparr>)))"

definition clientCreateDeployment ::
  "string \<Rightarrow> 'p Deployment \<Rightarrow> 'p world \<Rightarrow> (error + 'p Deployment) \<times> 'p world" where
  "clientCreateDeployment ns d w =
     (let w' = w\<lparr>calls := calls w @ [CreateDeployment ns d]\<rparr> in
      case fault w (CreateDeployment ns d) of
        Some e \<Rightarrow> (Inl e, w')
      | None \<Rightarrow>
          (case storeCreate (deployments w) ns d of
             Inl e \<Rightarrow> (Inl e, w')
           | Inr st \<Rightarrow> (Inr d, w'\<lparr>deployments := st\<rparr>)))"

definition clientUpdateDeployment ::
  "string \<Rightarrow> 'p Deployment \<Rightarrow> 'p world \<Rightarrow> (error + 'p Deployment) \<times> 'p world" where
  "clientUpdateDeployment ns d w =
     (let w' = w\<lparr>calls := calls w @ [UpdateDeployment ns d]\<rparr> in
      case fault w (UpdateDeployment ns d) of
        Some e \<Rightarrow> (Inl e, w')
      | None \<Rightarrow>
          (case storeUpdate (deployments w) ns d of
             Inl e \<Rightarrow> (Inl e, w')
           | Inr st \<Rightarrow> (Inr d, w'\<lparr>deployments := st\<rparr>)))"

definition clientDeleteDeployment ::
  "string \<Rightarrow> string \<Rightarrow> 'p world \<Rightarrow> error option \<times> 'p world" where
  "clientDeleteDeployment ns n w =
     (let w' = w\<lparr>calls := calls w @ [DeleteDeployment ns n]\<rparr> in
      case fault w (DeleteDeployment ns n) of
        Some e \<Rightarrow> (Some e, w')
      | None \<Rightarrow>
          (case storeDelete (deployments w) ns n of
             Inl e \<Rightarrow> (Some e, w')
           | Inr st \<Rightarrow> (None, w'\<lparr>deployments := st\<rparr>)))"

definition Eventf :: "recorded \<Rightarrow> 'p world \<Rightarrow> 'p world" where
  "Eventf e w = w\<lparr>events := events w @ [e]\<rparr>"

text \<open>A lister whose cache agrees with the store, and the world with such listers.\<close>

definition listerOf ::
  "(string \<times> 'z ObjectMeta_scheme) list \<Rightarrow> string \<Rightarrow> string \<Rightarrow> error + 'z ObjectMeta_scheme" where
  "listerOf st ns n =
     (case lookup st ns n of
        None \<Rightarrow> Inl (StatusError StatusReasonNotFound)
      | Some x \<Rightarrow> Inr x)"

definition sync :: "'p world \<Rightarrow> 'p world" where
  "sync w = w\<lparr>serviceAccountLister := listerOf (serviceAccounts w),
              roleBindingLister := listerOf (roleBindings w),
              deploymentLister := listerOf (deployments w)\<rparr>"

text \<open>
  \<open>metav1.IsControlledBy\<close>: the first owner reference marked as controller, if any,
  carries the owner's UID.
\<close>

definition GetControllerOf :: "'z ObjectMeta_scheme \<Rightarrow> OwnerReference option" where
  "GetControllerOf obj = find (\<lambda>ref. ownerController ref = Some True) (OwnerReferences obj)"

definition IsControlledBy :: "'y ObjectMeta_scheme \<Rightarrow> 'z ObjectMeta_scheme \<Rightarrow> bool" where
  "IsControlledBy obj owner =
     (case GetControllerOf obj of
        None \<Rightarrow> False
      | Some ref \<Rightarrow> ownerUID ref = UID owner)"

subsection \<open>The reconciler\<close>

definition newWarningSinkNotFound :: "('p, 'c) env \<Rightarrow> Destination \<Rightarrow> error" where
  "newWarningSinkNotFound env sink =
     NewEvent EventTypeWarning ''SinkNotFound'' ''Sink not found: %s'' [S (jsonMarshal env sink)]"

definition newServiceAccountWarn :: "error \<Rightarrow> error" where
  "newServiceAccountWarn err =
     NewEvent EventTypeWarning ''PingSourceServiceAccountFailed''
       ''Reconciling PingSource ServiceAccount failed: %s'' [E err]"

definition newRoleBindingWarn :: "error \<Rightarrow> error" where
  "newRoleBindingWarn err =
     NewEvent EventTypeWarning ''PingSourceRoleBindingFailed''
       ''Reconciling PingSource RoleBinding failed: %s'' [E err]"

text \<open>A call of a lifecycle method on \<open>source.Status\<close>.\<close>

definition mark :: "'p mark \<Rightarrow> 'p PingSource \<Rightarrow> 'p PingSource" where
  "mark m source = source\<lparr>Status := (Status source)\<lparr>Marks := Marks (Status source) @ [m]\<rparr>\<rparr>"

text \<open>
  \<open>source.Status.Annotations[k] = v\<close>: a write to a nil map panics.
\<close>

definition setStatusAnnotation ::
  "string \<Rightarrow> string \<Rightarrow> 'p PingSource \<Rightarrow> 'p PingSource option" where
  "setStatusAnnotation k v source =
     (case StatusAnnotations (Status source) of
        None \<Rightarrow> None
      | Some m \<Rightarrow> Some (source\<lparr>Status := (Status source)\<lparr>StatusAnnotations := Some (m(k \<mapsto> v))\<rparr>\<rparr>))"

text \<open>
  \<open>reconcileServiceAccount\<close>. The object Go returns beside an error is dropped: no
  caller reads it.
\<close>

definition reconcileServiceAccount ::
  "('p, 'c) env \<Rightarrow> 'p world \<Rightarrow> 'p PingSource \<Rightarrow> ServiceAccount ret \<times> 'p PingSource \<times> 'p world" where
  "reconcileServiceAccount env w source =
     (let saName = CreateReceiveAdapterName env (Name source) (UID source) in
      case serviceAccountLister w (Namespace source) saName of
        Inl err \<Rightarrow>
          if IsNotFound err then
            (let expected = MakeServiceAccount env source saName in
             case clientCreateServiceAccount (Namespace source) expected w of
               (Inl err', w') \<Rightarrow> (Err (newServiceAccountWarn err'), source, w')
             | (Inr sa, w') \<Rightarrow>
                 (Ret sa, source,
                  Eventf (Recorded EventTypeNormal pingSourceServiceAccountCreated
                            ''PingSource ServiceAccount created'' []) w'))
          else
            (case setStatusAnnotation ''serviceAccount'' ''Failed to get ServiceAccount'' source of
               None \<Rightarrow> (Panic, source, w)
             | Some source' \<Rightarrow> (Err (newServiceAccountWarn err), source', w))
      | Inr sa \<Rightarrow> (Ret sa, source, w))"

definition reconcileRoleBinding ::
  "('p, 'c) env \<Rightarrow> 'p world \<Rightarrow> 'p PingSource \<Rightarrow> RoleBinding ret \<times> 'p PingSource \<times> 'p world" where
  "reconcileRoleBinding env w source =
     (let rbName = CreateReceiveAdapterName env (Name source) (UID source) in
      case roleBindingLister w (Namespace source) rbName of
        Inl err \<Rightarrow>
          if IsNotFound err then
            (let expected = MakeRoleBinding env source rbName stadapterClusterRoleName in
             case clientCreateRoleBinding (Namespace source) expected w of
               (Inl err', w') \<Rightarrow> (Err (newRoleBindingWarn err'), source, w')
             | (Inr rb, w') \<Rightarrow>
                 (Ret rb, source,
                  Eventf (Recorded EventTypeNormal pingSourceRoleBindingCreated
                            ''PingSource RoleBinding created'' []) w'))
          else
            (case setStatusAnnotation ''roleBinding'' ''Failed to get PingSource RoleBinding'' source of
               None \<Rightarrow> (Panic, source, w)
             | Some source' \<Rightarrow> (Err (newRoleBindingWarn err), source', w))
      | Inr rb \<Rightarrow> (Ret rb, source, w))"

definition podSpecChanged :: "('p, 'c) env \<Rightarrow> 'p \<Rightarrow> 'p \<Rightarrow> bool" where
  "podSpecChanged env oldPodSpec newPodSpec = (\<not> DeepDerivative env newPodSpec oldPodSpec)"

text \<open>The desired per-source deployment (lines 238 to 256 of \<open>createReceiveAdapter\<close>).\<close>

definition expectedReceiveAdapter ::
  "('p, 'c) env \<Rightarrow> 'c Reconciler \<Rightarrow> 'p PingSource \<Rightarrow> string \<Rightarrow> 'p Deployment" where
  "expectedReceiveAdapter env r src sinkURI =
     MakeReceiveAdapter env
       \<lparr>ArgsImage = receiveAdapterImage r,
        ArgsSource = src,
        ArgsLabels = ResourceLabels env (Name src),
        ArgsSinkURI = sinkURI,
        ArgsLoggingConfig = fst (LoggingConfigToJson env (loggingConfig r)),
        ArgsMetricsConfig = fst (MetricsOptionsToJson env (metricsConfig r))\<rparr>"

text \<open>The create of the per-source deployment and its event (lines 269 to 275).\<close>

definition createExpected ::
  "string \<Rightarrow> 'p Deployment \<Rightarrow> 'p world \<Rightarrow> 'p Deployment ret \<times> 'p world" where
  "createExpected ns expected w =
     (case clientCreateDeployment ns expected w of
        (Inl err, w') \<Rightarrow>
          (Err err,
           Eventf (Recorded EventTypeNormal pingSourceDeploymentCreated ''%s''
                     [Sprintf ''Deployment created, error: %v'' [E err]]) w')
      | (Inr ra, w') \<Rightarrow>
          (Ret ra,
           Eventf (Recorded EventTypeNormal pingSourceDeploymentCreated ''%s''
                     [S ''Deployment created'']) w'))"

text \<open>
  \<open>createReceiveAdapter\<close>. On drift the pod spec is assigned to the object the lister
  returned, which is the object in the lister's cache, before the update is sent.
\<close>

definition createReceiveAdapter ::
  "('p, 'c) env \<Rightarrow> 'c Reconciler \<Rightarrow> 'p world \<Rightarrow> 'p PingSource \<Rightarrow> string
     \<Rightarrow> 'p Deployment ret \<times> 'p world" where
  \<open>createReceiveAdapter env r w src sinkURI =
     (let expected = expectedReceiveAdapter env r src sinkURI in
      case deploymentLister w (Namespace src) (Name expected) of
        Inl err \<Rightarrow>
          if IsNotFound err then
            (let deprecatedName = GenerateFixedName env src (''pingsource-'' @ Name src) in
             if deprecatedName \<noteq> Name expected then
               (case clientDeleteDeployment (Namespace src) deprecatedName w of
                  (Some err', w') \<Rightarrow>
                    if \<not> IsNotFound err' then
                      (Err (Errorf ''error deleting deprecated named deployment: %v'' [E err']), w')
                    else
                      createExpected (Namespace src) expected
                        (Eventf (Recorded EventTypeNormal pingSourceDeploymentDeleted
                                   ''Deprecated deployment removed: "%s/%s"''
                                   [S (Namespace src), S deprecatedName]) w')
                | (None, w') \<Rightarrow>
                    createExpected (Namespace src) expected
                      (Eventf (Recorded EventTypeNormal pingSourceDeploymentDeleted
                                 ''Deprecated deployment removed: "%s/%s"''
                                 [S (Namespace src), S deprecatedName]) w'))
             else createExpected (Namespace src) expected w)
          else (Err (Errorf ''error getting receive adapter: %v'' [E err]), w)
      | Inr ra \<Rightarrow>
          if \<not> IsControlledBy ra src then
            (Err (Errorf ''deployment %q is not owned by PingSource %q'' [S (Name ra), S (Name src)]), w)
          else if podSpecChanged env (SpecTemplateSpec ra) (SpecTemplateSpec expected) then
            (let ra' = ra\<lparr>SpecTemplateSpec := SpecTemplateSpec expected\<rparr>;
                 w0 = w\<lparr>deploymentLister :=
                         (deploymentLister w)(Namespace src :=
                            (deploymentLister w (Namespace src))(Name expected := Inr ra'))\<rparr>
             in case clientUpdateDeployment (Namespace src) ra' w0 of
                  (Inl err, w') \<Rightarrow> (Err err, w')
                | (Inr ra'', w') \<Rightarrow>
                    (Ret ra'',
                     Eventf (Recorded EventTypeNormal pingSourceDeploymentUpdated
                               ''Deployment %q updated'' [S (Name ra'')]) w'))
          else (Ret ra, w))\<close>

text \<open>The desired shared deployment (lines 294 to 312 of \<open>reconcileMTReceiveAdapter\<close>).\<close>

definition expectedMTReceiveAdapter :: "('p, 'c) env \<Rightarrow> 'c Reconciler \<Rightarrow> 'p Deployment" where
  "expectedMTReceiveAdapter env r =
     MakeMTReceiveAdapter env
       \<lparr>MTServiceAccountName = mtadapterName,
        MTAdapterName = mtadapterName,
        MTImage = receiveMTAdapterImage r,
        MTLoggingConfig = fst (LoggingConfigToJson env (loggingConfig r)),
        MTMetricsConfig = fst (MetricsOptionsToJson env (metricsConfig r)),
        MTLeConfig = leConfig r\<rparr>"

definition reconcileMTReceiveAdapter ::
  "('p, 'c) env \<Rightarrow> 'c Reconciler \<Rightarrow> 'p world \<Rightarrow> 'p PingSource \<Rightarrow> 'p Deployment ret \<times> 'p world" where
  "reconcileMTReceiveAdapter env r w source =
     (let expected = expectedMTReceiveAdapter env r in
      case deploymentLister w (systemNamespace env) mtadapterName of
        Inl err \<Rightarrow>
          if IsNotFound err then
            (case clientCreateDeployment (systemNamespace env) expected w of
               (Inl err', w') \<Rightarrow>
                 (Err err',
                  Eventf (Recorded EventTypeWarning pingSourceDeploymentCreated
                            ''Cluster-scoped deployment not created (%v)'' [E err']) w')
             | (Inr d, w') \<Rightarrow>
                 (Ret d,
                  Eventf (Recorded EventTypeNormal pingSourceDeploymentCreated
                            ''Cluster-scoped deployment created'' []) w'))
          else (Err (Errorf ''error getting mt adapter deployment %v'' [E err]), w)
      | Inr d \<Rightarrow>
          if podSpecChanged env (SpecTemplateSpec d) (SpecTemplateSpec expected) then
            (let d' = d\<lparr>SpecTemplateSpec := SpecTemplateSpec expected\<rparr>;
                 w0 = w\<lparr>deploymentLister :=
                         (deploymentLister w)(systemNamespace env :=
                            (deploymentLister w (systemNamespace env))(mtadapterName := Inr d'))\<rparr>
             in case clientUpdateDeployment (systemNamespace env) d' w0 of
                  (Inl err, w') \<Rightarrow> (Err err, w')
                | (Inr d'', w') \<Rightarrow>
                    (Ret d'',
                     Eventf (Recorded EventTypeNormal pingSourceDeploymentUpdated
                               ''Cluster-scoped deployment updated'' []) w'))
          else (Ret d, w))"

text \<open>The cluster-scope branch of \<open>ReconcileKind\<close> (lines 147 to 166).\<close>

definition reconcileClusterScope ::
  "('p, 'c) env \<Rightarrow> 'c Reconciler \<Rightarrow> 'p world \<Rightarrow> 'p PingSource
     \<Rightarrow> unit ret \<times> 'p PingSource \<times> 'p world" where
  "reconcileClusterScope env r w source =
     (case reconcileMTReceiveAdapter env r w source of
        (Panic, w') \<Rightarrow> (Panic, source, w')
      | (Err err, w') \<Rightarrow> (Err err, source, w')
      | (Ret d, w') \<Rightarrow>
          (let source' = mark (PropagateDeploymentAvailability d) source;
               ref = \<lparr>trAPIVersion = ''apps/v1'', trKind = ''Deployment'',
                      trNamespace = Namespace d, trName = Name d\<rparr>;
               w'' = w'\<lparr>tracked := tracked w' @ [ref]\<rparr>
           in case TrackReference env ref source' of
                Some err \<Rightarrow> (Err err, source', w'')
              | None \<Rightarrow> (Ret (), source', w'')))"

text \<open>The other branch of \<open>ReconcileKind\<close> (lines 169 to 184).\<close>

definition reconcileResourceScope ::
  "('p, 'c) env \<Rightarrow> 'c Reconciler \<Rightarrow> 'p world \<Rightarrow> 'p PingSource \<Rightarrow> string
     \<Rightarrow> unit ret \<times> 'p PingSource \<times> 'p world" where
  "reconcileResourceScope env r w source sinkURI =
     (case reconcileServiceAccount env w source of
        (Panic, source1, w1) \<Rightarrow> (Panic, source1, w1)
      | (Err err, source1, w1) \<Rightarrow>
          (Err (Errorf ''creating receive adapter service account: %v'' [E err]), source1, w1)
      | (Ret sa, source1, w1) \<Rightarrow>
          (case reconcileRoleBinding env w1 source1 of
             (Panic, source2, w2) \<Rightarrow> (Panic, source2, w2)
           | (Err err, source2, w2) \<Rightarrow>
               (Err (Errorf ''creating receive adapter role binding: %v'' [E err]), source2, w2)
           | (Ret rb, source2, w2) \<Rightarrow>
               (case createReceiveAdapter env r w2 source2 sinkURI of
                  (Panic, w3) \<Rightarrow> (Panic, source2, w3)
                | (Err err, w3) \<Rightarrow>
                    (Err (Errorf ''creating receive adapter: %v'' [E err]), source2, w3)
                | (Ret ra, w3) \<Rightarrow>
                    (Ret (), mark (PropagateDeploymentAvailability ra) source2, w3))))"

text \<open>
  The destination given to the resolver (lines 119 to 128): a copy of the sink, with the
  source's namespace where the reference has none.
\<close>

definition sinkDestination :: "'p PingSource \<Rightarrow> Destination" where
  "sinkDestination source =
     (let dest = Sink (Spec source) in
      case Ref dest of
        None \<Rightarrow> dest
      | Some ref \<Rightarrow>
          if refNamespace ref = '''' then dest\<lparr>Ref := Some (ref\<lparr>refNamespace := Namespace source\<rparr>)\<rparr>
          else dest)"

text \<open>The scope read from the annotations (lines 141 to 144).\<close>

definition scopeOf :: "('p, 'c) env \<Rightarrow> 'p PingSource \<Rightarrow> string" where
  "scopeOf env source =
     (case Annotations source (ScopeAnnotationKey env) of
        None \<Rightarrow> ScopeCluster env
      | Some scope \<Rightarrow> scope)"

definition setCloudEventAttributes :: "('p, 'c) env \<Rightarrow> 'p PingSource \<Rightarrow> 'p PingSource" where
  "setCloudEventAttributes env source =
     source\<lparr>Status := (Status source)\<lparr>StatusCloudEventAttributes :=
       [\<lparr>ceType = PingSourceEventType env,
         ceSource = PingSourceSource env (Namespace source) (Name source)\<rparr>]\<rparr>\<rparr>"

definition ReconcileKind ::
  "('p, 'c) env \<Rightarrow> 'c Reconciler \<Rightarrow> 'p world \<Rightarrow> 'p PingSource
     \<Rightarrow> unit ret \<times> 'p PingSource \<times> 'p world" where
  "ReconcileKind env r w source =
     (let dest = sinkDestination source;
          w0 = w\<lparr>resolved := resolved w @ [dest]\<rparr>
      in case URIFromDestinationV1 env dest source of
           Inl err \<Rightarrow>
             (Err (newWarningSinkNotFound env dest), mark (MarkNoSink ''NotFound'' '''') source, w0)
         | Inr sinkURI \<Rightarrow>
             (let source0 = mark MarkSchedule (mark (MarkSink sinkURI) source) in
              case (if scopeOf env source0 = ScopeCluster env
                    then reconcileClusterScope env r w0 source0
                    else reconcileResourceScope env r w0 source0 sinkURI) of
                (Ret u, source1, w1) \<Rightarrow> (Ret (), setCloudEventAttributes env source1, w1)
              | (Err err, source1, w1) \<Rightarrow> (Err err, source1, w1)
              | (Panic, source1, w1) \<Rightarrow> (Panic, source1, w1)))"

subsection \<open>The configuration callbacks\<close>




subsection \<open>An example environment\<close>

text \<open>
  Concrete values for the parameters, used to run the model. A pod spec is the list of
  the fields that are set, each with its value. \<open>ex_derivative\<close> follows what the
  library documents for \<open>DeepDerivative\<close>: a field that the first argument leaves unset
  (empty) is not compared, and a field it sets has the same value in the second argument.
\<close>

type_synonym ex_pod = "(string \<times> string) list"

definition ex_derivative :: "ex_pod \<Rightarrow> ex_pod \<Rightarrow> bool" where
  "ex_derivative a1 a2 = list_all (\<lambda>(k, v). v = '''' \<or> (k, v) \<in> set a2) a1"

definition ex_controllerRef :: "'z ObjectMeta_scheme \<Rightarrow> OwnerReference" where
  "ex_controllerRef owner = \<lparr>ownerUID = UID owner, ownerController = Some True\<rparr>"

definition ex_marshal :: "Destination \<Rightarrow> string" where
  \<open>ex_marshal d =
     (case Ref d of
        None \<Rightarrow> ''{}''
      | Some ref \<Rightarrow>
          ''{"ref":{"kind":"'' @ refKind ref @ ''","namespace":"'' @ refNamespace ref
            @ ''","name":"'' @ refName ref @ ''","apiVersion":"'' @ refAPIVersion ref @ ''"}}'')\<close>

definition ex_resolve :: "Destination \<Rightarrow> ex_pod PingSource \<Rightarrow> error + string" where
  "ex_resolve d parent =
     (case Ref d of
        None \<Rightarrow>
          (case URI d of
             None \<Rightarrow> Inl (OtherError ''destination missing Ref and URI'')
           | Some u \<Rightarrow> Inr u)
      | Some ref \<Rightarrow>
          if refName ref = ''svc1'' \<and> refNamespace ref \<noteq> ''''
          then Inr (''http://svc1.'' @ refNamespace ref @ ''.svc.cluster.local'')
          else Inl (StatusError StatusReasonNotFound))"

definition ex_parse :: "ConfigMap option \<Rightarrow> string option ret" where
  "ex_parse cfg =
     (case cfg of
        None \<Rightarrow> Panic
      | Some c \<Rightarrow>
          (case Data c of
             None \<Rightarrow> Err (OtherError ''empty logging configuration'')
           | Some m \<Rightarrow>
               (case m ''zap-logger-config'' of
                  None \<Rightarrow> Err (OtherError ''empty logging configuration'')
                | Some z \<Rightarrow> Ret (Some z))))"

definition ex_env :: "(ex_pod, string) env" where
  "ex_env =
     \<lparr>URIFromDestinationV1 = ex_resolve,
      jsonMarshal = ex_marshal,
      ScopeAnnotationKey = ''eventing.knative.dev/scope'',
      ScopeCluster = ''cluster'',
      CreateReceiveAdapterName = (\<lambda>name uid. ''pingsource-'' @ name @ ''-'' @ uid),
      GenerateFixedName = (\<lambda>owner prefix. prefix @ ''-'' @ UID owner @ ''-old''),
      MakeServiceAccount = (\<lambda>owner name.
        \<lparr>Namespace = Namespace owner, Name = name, UID = '''',
         OwnerReferences = [ex_controllerRef owner], Annotations = Map.empty, Secrets = []\<rparr>),
      MakeRoleBinding = (\<lambda>owner name role.
        \<lparr>Namespace = Namespace owner, Name = name, UID = '''',
         OwnerReferences = [ex_controllerRef owner], Annotations = Map.empty, RoleRef = role\<rparr>),
      ResourceLabels = (\<lambda>name. [''sources.knative.dev/pingSource'' \<mapsto> name]),
      MakeReceiveAdapter = (\<lambda>args.
        \<lparr>Namespace = Namespace (ArgsSource args),
         Name = ''pingsource-'' @ Name (ArgsSource args) @ ''-'' @ UID (ArgsSource args),
         UID = '''',
         OwnerReferences = [ex_controllerRef (ArgsSource args)], Annotations = Map.empty,
         SpecTemplateSpec =
           [(''serviceAccountName'',
               ''pingsource-'' @ Name (ArgsSource args) @ ''-'' @ UID (ArgsSource args)),
            (''image'', ArgsImage args),
            (''env.K_SINK'', ArgsSinkURI args)]\<rparr>),
      MakeMTReceiveAdapter = (\<lambda>args.
        \<lparr>Namespace = ''knative-eventing'', Name = MTAdapterName args, UID = '''',
         OwnerReferences = [], Annotations = Map.empty,
         SpecTemplateSpec =
           [(''serviceAccountName'', MTServiceAccountName args), (''image'', MTImage args)]\<rparr>),
      DeepDerivative = ex_derivative,
      LoggingConfigToJson = (\<lambda>c. (case c of None \<Rightarrow> '''' | Some z \<Rightarrow> z, None)),
      MetricsOptionsToJson = (\<lambda>c. (case c of None \<Rightarrow> '''' | Some z \<Rightarrow> opComponent z, None)),
      TrackReference = (\<lambda>ref parent. None),
      systemNamespace = ''knative-eventing'',
      PingSourceEventType = ''dev.knative.sources.ping'',
      PingSourceSource = (\<lambda>ns name. ''/apis/v1/namespaces/'' @ ns @ ''/pingsources/'' @ name),
      NewConfigFromConfigMap = ex_parse,
      metricsDomain = ''knative.dev/eventing''\<rparr>"

definition ex_r :: "string Reconciler" where
  "ex_r = \<lparr>receiveAdapterImage = ''adapter:v1'', receiveMTAdapterImage = ''mtadapter:v1'',
           loggingConfig = None, metricsConfig = None, leConfig = ''''\<rparr>"

text \<open>
  A source in namespace \<open>default\<close>, named \<open>p1\<close>, with UID \<open>abc\<close>, whose sink is a
  reference to the service \<open>svc1\<close> with no namespace; its annotations are given.
\<close>

definition ex_source :: "(string \<rightharpoonup> string) \<Rightarrow> ex_pod PingSource" where
  "ex_source ann =
     \<lparr>Namespace = ''default'', Name = ''p1'', UID = ''abc'', OwnerReferences = [],
      Annotations = ann,
      Spec = \<lparr>Sink = \<lparr>Ref = Some \<lparr>refKind = ''Service'', refNamespace = '''', refName = ''svc1'',
                                   refAPIVersion = ''v1''\<rparr>,
                      URI = None\<rparr>,
              Schedule = ''* * * * *'', JsonData = ''{}''\<rparr>,
      Status = \<lparr>StatusAnnotations = Some Map.empty, Marks = [], StatusCloudEventAttributes = []\<rparr>\<rparr>"

definition ex_resource :: "ex_pod PingSource" where
  "ex_resource = ex_source [''eventing.knative.dev/scope'' \<mapsto> ''resource'']"

text \<open>A world with nothing stored, no failing call and no effect yet.\<close>

definition ex_world :: "ex_pod world" where
  "ex_world =
     \<lparr>serviceAccountLister = listerOf [], roleBindingLister = listerOf [],
      deploymentLister = listerOf [],
      serviceAccounts = [], roleBindings = [], deployments = [],
      fault = (\<lambda>c. None), calls = [], events = [], resolved = [], tracked = []\<rparr>"

text \<open>Sources with an unknown scope, the cluster scope, and a sink that does not resolve.\<close>

definition ex_bogus :: "ex_pod PingSource" where
  "ex_bogus = ex_source [''eventing.knative.dev/scope'' \<mapsto> ''bogus'']"

definition ex_cluster :: "ex_pod PingSource" where
  "ex_cluster = ex_source [''eventing.knative.dev/scope'' \<mapsto> ''cluster'']"

definition ex_unresolvable :: "ex_pod PingSource" where
  "ex_unresolvable =
     ex_resource\<lparr>Spec := \<lparr>Sink = \<lparr>Ref = Some \<lparr>refKind = ''Service'', refNamespace = '''',
                                               refName = ''missing'', refAPIVersion = ''v1''\<rparr>,
                                  URI = None\<rparr>,
                          Schedule = ''* * * * *'', JsonData = ''{}''\<rparr>\<rparr>"

text \<open>A world that stores the given objects in namespace \<open>default\<close>, with listers that agree.\<close>

definition ex_stored ::
  "ServiceAccount list \<Rightarrow> RoleBinding list \<Rightarrow> ex_pod Deployment list \<Rightarrow> ex_pod world" where
  "ex_stored sas rbs ds =
     sync (ex_world\<lparr>serviceAccounts := map (Pair ''default'') sas,
                     roleBindings := map (Pair ''default'') rbs,
                     deployments := map (Pair ''default'') ds\<rparr>)"

text \<open>Objects under the names of \<open>p1\<close>: controlled by \<open>p1\<close>, or by another owner.\<close>

definition ex_sa :: "string \<Rightarrow> ServiceAccount" where
  "ex_sa owner =
     \<lparr>Namespace = ''default'', Name = ''pingsource-p1-abc'', UID = ''sa-1'',
      OwnerReferences = [\<lparr>ownerUID = owner, ownerController = Some True\<rparr>],
      Annotations = Map.empty, Secrets = []\<rparr>"

definition ex_rb :: "string \<Rightarrow> RoleBinding" where
  "ex_rb owner =
     \<lparr>Namespace = ''default'', Name = ''pingsource-p1-abc'', UID = ''rb-1'',
      OwnerReferences = [\<lparr>ownerUID = owner, ownerController = Some True\<rparr>],
      Annotations = Map.empty, RoleRef = ''knative-eventing-pingsource-adapter''\<rparr>"

definition ex_deployment :: "string \<Rightarrow> string \<Rightarrow> ex_pod \<Rightarrow> ex_pod Deployment" where
  "ex_deployment name owner pod =
     \<lparr>Namespace = ''default'', Name = name, UID = ''d-1'',
      OwnerReferences = [\<lparr>ownerUID = owner, ownerController = Some True\<rparr>],
      Annotations = Map.empty, SpecTemplateSpec = pod\<rparr>"

text \<open>The pod spec the example builder makes for \<open>p1\<close>, and a live one with two more fields.\<close>

definition ex_desired_pod :: ex_pod where
  "ex_desired_pod =
     [(''serviceAccountName'', ''pingsource-p1-abc''),
      (''image'', ''adapter:v1''),
      (''env.K_SINK'', ''http://svc1.default.svc.cluster.local'')]"

definition ex_live_pod :: ex_pod where
  "ex_live_pod = ex_desired_pod @ [(''nodeName'', ''node-7''), (''dnsPolicy'', ''ClusterFirst'')]"

definition ex_mt_desired_pod :: ex_pod where
  "ex_mt_desired_pod = [(''serviceAccountName'', ''pingsource-mt-adapter''), (''image'', ''mtadapter:v1'')]"

definition ex_mt_live :: "ex_pod Deployment" where
  "ex_mt_live =
     \<lparr>Namespace = ''knative-eventing'', Name = ''pingsource-mt-adapter'', UID = ''d-2'',
      OwnerReferences = [], Annotations = Map.empty,
      SpecTemplateSpec = ex_mt_desired_pod @ [(''nodeName'', ''node-3'')]\<rparr>"

text \<open>The source \<open>p1\<close> as the steps see it, after the sink and the schedule are marked.\<close>

definition ex_marked :: "ex_pod PingSource" where
  "ex_marked = mark MarkSchedule (mark (MarkSink ''http://svc1.default.svc.cluster.local'') ex_resource)"

text \<open>A client whose creates of deployments fail, and listers that fail.\<close>

definition ex_create_fails :: "ex_pod call \<Rightarrow> error option" where
  "ex_create_fails c =
     (case c of
        CreateDeployment ns d \<Rightarrow> Some (StatusError StatusReasonInternalError)
      | _ \<Rightarrow> None)"

definition ex_lister_fails :: "string \<Rightarrow> string \<Rightarrow> error + 'a" where
  "ex_lister_fails ns n = Inl (StatusError StatusReasonInternalError)"

text \<open>A reconciler with a metrics configuration, and a snapshot with an unknown backend.\<close>

definition ex_r_metrics :: "string Reconciler" where
  "ex_r_metrics =
     ex_r\<lparr>metricsConfig :=
            Some \<lparr>opDomain = ''knative.dev/eventing'', opComponent = ''pingsource'',
                  opConfigMap = Some [''metrics.backend-destination'' \<mapsto> ''prometheus'']\<rparr>\<rparr>"

definition ex_snapshot :: "(string \<rightharpoonup> string) \<Rightarrow> ConfigMap" where
  "ex_snapshot m = \<lparr>cmName = ''config-observability'', Data = Some m\<rparr>"


section \<open>Properties of the reconciler\<close>

subsection \<open>Definitions to unfold\<close>

lemmas client_defs = lookup_def storeCreate_def storeUpdate_def storeDelete_def
  clientCreateServiceAccount_def clientCreateRoleBinding_def clientCreateDeployment_def
  clientUpdateDeployment_def clientDeleteDeployment_def Eventf_def listerOf_def sync_def
  GetControllerOf_def IsControlledBy_def

lemmas step_defs = newWarningSinkNotFound_def newServiceAccountWarn_def newRoleBindingWarn_def
  mark_def setStatusAnnotation_def reconcileServiceAccount_def reconcileRoleBinding_def
  podSpecChanged_def expectedReceiveAdapter_def createExpected_def createReceiveAdapter_def
  expectedMTReceiveAdapter_def reconcileMTReceiveAdapter_def reconcileClusterScope_def
  reconcileResourceScope_def sinkDestination_def scopeOf_def setCloudEventAttributes_def
  ReconcileKind_def

lemmas const_defs = pingSourceDeploymentCreated_def pingSourceDeploymentUpdated_def
  pingSourceDeploymentDeleted_def pingSourceServiceAccountCreated_def
  pingSourceRoleBindingCreated_def component_def mtadapterName_def stadapterClusterRoleName_def

lemmas ex_defs = ex_derivative_def ex_controllerRef_def ex_marshal_def ex_resolve_def
  ex_parse_def ex_env_def ex_r_def ex_source_def ex_resource_def ex_world_def

lemmas ex_defs2 = ex_bogus_def ex_cluster_def ex_unresolvable_def ex_stored_def ex_sa_def
  ex_rb_def ex_deployment_def ex_desired_pod_def ex_live_pod_def ex_mt_desired_pod_def
  ex_mt_live_def ex_marked_def ex_create_fails_def ex_lister_fails_def ex_r_metrics_def
  ex_snapshot_def

subsection \<open>The store\<close>

lemma lookup_Nil [simp]: "lookup [] ns n = None"
  by (simp add: lookup_def)

lemma lookup_Cons [simp]:
  "lookup ((m, x) # st) ns n = (if m = ns \<and> Name x = n then Some x else lookup st ns n)"
  by (simp add: lookup_def)

lemma lookup_Name: "lookup st ns n = Some x \<Longrightarrow> Name x = n"
  by (induction st) (auto split: if_splits)

lemma lookup_append_new:
  "lookup st ns n = None \<Longrightarrow> Name x = n \<Longrightarrow> lookup (st @ [(ns, x)]) ns n = Some x"
  by (induction st) (auto split: if_splits)

lemma lookup_filter_None:
  "lookup st ns n = None \<Longrightarrow> lookup (filter P st) ns n = None"
  by (induction st) (auto split: if_splits)

lemma lookup_update:
  "lookup st ns (Name x) = Some y \<Longrightarrow>
   lookup (map (\<lambda>(m, y). if m = ns \<and> Name y = Name x then (ns, x) else (m, y)) st) ns (Name x) = Some x"
  by (induction st) (auto split: if_splits)

lemma sync_fields [simp]:
  "calls (sync w) = calls w" "events (sync w) = events w" "fault (sync w) = fault w"
  "resolved (sync w) = resolved w" "tracked (sync w) = tracked w"
  "serviceAccounts (sync w) = serviceAccounts w" "roleBindings (sync w) = roleBindings w"
  "deployments (sync w) = deployments w"
  "serviceAccountLister (sync w) = listerOf (serviceAccounts w)"
  "roleBindingLister (sync w) = listerOf (roleBindings w)"
  "deploymentLister (sync w) = listerOf (deployments w)"
  by (simp_all add: sync_def)

subsection \<open>Steps that find their object\<close>

lemma reconcileServiceAccount_found:
  "serviceAccountLister w (Namespace source) (CreateReceiveAdapterName env (Name source) (UID source)) = Inr sa
   \<Longrightarrow> reconcileServiceAccount env w source = (Ret sa, source, w)"
  by (simp add: reconcileServiceAccount_def)

lemma reconcileRoleBinding_found:
  "roleBindingLister w (Namespace source) (CreateReceiveAdapterName env (Name source) (UID source)) = Inr rb
   \<Longrightarrow> reconcileRoleBinding env w source = (Ret rb, source, w)"
  by (simp add: reconcileRoleBinding_def)

lemma createReceiveAdapter_foreign:
  "deploymentLister w (Namespace src) (Name (expectedReceiveAdapter env r src uri)) = Inr ra
   \<Longrightarrow> \<not> IsControlledBy ra src
   \<Longrightarrow> createReceiveAdapter env r w src uri =
         (Err (Errorf ''deployment %q is not owned by PingSource %q'' [S (Name ra), S (Name src)]), w)"
  by (simp add: createReceiveAdapter_def Let_def)

lemma createReceiveAdapter_reuse:
  "deploymentLister w (Namespace src) (Name (expectedReceiveAdapter env r src uri)) = Inr ra
   \<Longrightarrow> IsControlledBy ra src
   \<Longrightarrow> DeepDerivative env (SpecTemplateSpec (expectedReceiveAdapter env r src uri)) (SpecTemplateSpec ra)
   \<Longrightarrow> createReceiveAdapter env r w src uri = (Ret ra, w)"
  by (simp add: createReceiveAdapter_def Let_def podSpecChanged_def)

lemma reconcileMTReceiveAdapter_reuse:
  "deploymentLister w (systemNamespace env) mtadapterName = Inr d
   \<Longrightarrow> DeepDerivative env (SpecTemplateSpec (expectedMTReceiveAdapter env r)) (SpecTemplateSpec d)
   \<Longrightarrow> reconcileMTReceiveAdapter env r w source = (Ret d, w)"
  by (simp add: reconcileMTReceiveAdapter_def Let_def podSpecChanged_def)

subsection \<open>The shape of ReconcileKind\<close>

lemma meta_mark [simp]:
  "Namespace (mark m s) = Namespace s" "Name (mark m s) = Name s" "UID (mark m s) = UID s"
  "Annotations (mark m s) = Annotations s" "Spec (mark m s) = Spec s"
  "Marks (Status (mark m s)) = Marks (Status s) @ [m]"
  "StatusAnnotations (Status (mark m s)) = StatusAnnotations (Status s)"
  "StatusCloudEventAttributes (Status (mark m s)) = StatusCloudEventAttributes (Status s)"
  by (simp_all add: mark_def)

lemma scopeOf_mark [simp]: "scopeOf env (mark m s) = scopeOf env s"
  by (simp add: scopeOf_def)

lemma meta_setCloudEventAttributes [simp]:
  "Namespace (setCloudEventAttributes env s) = Namespace s"
  "Name (setCloudEventAttributes env s) = Name s"
  "UID (setCloudEventAttributes env s) = UID s"
  "Annotations (setCloudEventAttributes env s) = Annotations s"
  "Spec (setCloudEventAttributes env s) = Spec s"
  "Marks (Status (setCloudEventAttributes env s)) = Marks (Status s)"
  "StatusAnnotations (Status (setCloudEventAttributes env s)) = StatusAnnotations (Status s)"
  by (simp_all add: setCloudEventAttributes_def)

lemma ReconcileKind_no_sink:
  "URIFromDestinationV1 env (sinkDestination source) source = Inl err
   \<Longrightarrow> ReconcileKind env r w source =
         (Err (newWarningSinkNotFound env (sinkDestination source)),
          mark (MarkNoSink ''NotFound'' '''') source,
          w\<lparr>resolved := resolved w @ [sinkDestination source]\<rparr>)"
  by (simp add: ReconcileKind_def Let_def)

lemma ReconcileKind_cluster:
  "URIFromDestinationV1 env (sinkDestination source) source = Inr uri
   \<Longrightarrow> scopeOf env source = ScopeCluster env
   \<Longrightarrow> ReconcileKind env r w source =
         (case reconcileClusterScope env r (w\<lparr>resolved := resolved w @ [sinkDestination source]\<rparr>)
                 (mark MarkSchedule (mark (MarkSink uri) source)) of
            (Ret u, source1, w1) \<Rightarrow> (Ret (), setCloudEventAttributes env source1, w1)
          | (Err err, source1, w1) \<Rightarrow> (Err err, source1, w1)
          | (Panic, source1, w1) \<Rightarrow> (Panic, source1, w1))"
  by (simp add: ReconcileKind_def Let_def)

lemma ReconcileKind_resource:
  "URIFromDestinationV1 env (sinkDestination source) source = Inr uri
   \<Longrightarrow> scopeOf env source \<noteq> ScopeCluster env
   \<Longrightarrow> ReconcileKind env r w source =
         (case reconcileResourceScope env r (w\<lparr>resolved := resolved w @ [sinkDestination source]\<rparr>)
                 (mark MarkSchedule (mark (MarkSink uri) source)) uri of
            (Ret u, source1, w1) \<Rightarrow> (Ret (), setCloudEventAttributes env source1, w1)
          | (Err err, source1, w1) \<Rightarrow> (Err err, source1, w1)
          | (Panic, source1, w1) \<Rightarrow> (Panic, source1, w1))"
  by (simp add: ReconcileKind_def Let_def)

subsection \<open>What a step leaves as it was\<close>

lemma clientCreateServiceAccount_frame:
  "clientCreateServiceAccount ns sa w = (res, w')
   \<Longrightarrow> resolved w' = resolved w \<and> tracked w' = tracked w \<and> events w' = events w
       \<and> fault w' = fault w \<and> calls w' = calls w @ [CreateServiceAccount ns sa]
       \<and> roleBindings w' = roleBindings w \<and> deployments w' = deployments w
       \<and> serviceAccountLister w' = serviceAccountLister w
       \<and> roleBindingLister w' = roleBindingLister w
       \<and> deploymentLister w' = deploymentLister w"
  by (auto simp: clientCreateServiceAccount_def Let_def split: option.splits sum.splits)

lemma clientCreateRoleBinding_frame:
  "clientCreateRoleBinding ns rb w = (res, w')
   \<Longrightarrow> resolved w' = resolved w \<and> tracked w' = tracked w \<and> events w' = events w
       \<and> fault w' = fault w \<and> calls w' = calls w @ [CreateRoleBinding ns rb]
       \<and> serviceAccounts w' = serviceAccounts w \<and> deployments w' = deployments w
       \<and> serviceAccountLister w' = serviceAccountLister w
       \<and> roleBindingLister w' = roleBindingLister w
       \<and> deploymentLister w' = deploymentLister w"
  by (auto simp: clientCreateRoleBinding_def Let_def split: option.splits sum.splits)

lemma clientCreateDeployment_frame:
  "clientCreateDeployment ns d w = (res, w')
   \<Longrightarrow> resolved w' = resolved w \<and> tracked w' = tracked w \<and> events w' = events w
       \<and> fault w' = fault w \<and> calls w' = calls w @ [CreateDeployment ns d]
       \<and> serviceAccounts w' = serviceAccounts w \<and> roleBindings w' = roleBindings w
       \<and> serviceAccountLister w' = serviceAccountLister w
       \<and> roleBindingLister w' = roleBindingLister w
       \<and> deploymentLister w' = deploymentLister w"
  by (auto simp: clientCreateDeployment_def Let_def split: option.splits sum.splits)

lemma clientUpdateDeployment_frame:
  "clientUpdateDeployment ns d w = (res, w')
   \<Longrightarrow> resolved w' = resolved w \<and> tracked w' = tracked w \<and> events w' = events w
       \<and> fault w' = fault w \<and> calls w' = calls w @ [UpdateDeployment ns d]
       \<and> serviceAccounts w' = serviceAccounts w \<and> roleBindings w' = roleBindings w
       \<and> serviceAccountLister w' = serviceAccountLister w
       \<and> roleBindingLister w' = roleBindingLister w
       \<and> deploymentLister w' = deploymentLister w"
  by (auto simp: clientUpdateDeployment_def Let_def split: option.splits sum.splits)

lemma clientDeleteDeployment_frame:
  "clientDeleteDeployment ns n w = (res, w')
   \<Longrightarrow> resolved w' = resolved w \<and> tracked w' = tracked w \<and> events w' = events w
       \<and> fault w' = fault w \<and> calls w' = calls w @ [DeleteDeployment ns n]
       \<and> serviceAccounts w' = serviceAccounts w \<and> roleBindings w' = roleBindings w
       \<and> serviceAccountLister w' = serviceAccountLister w
       \<and> roleBindingLister w' = roleBindingLister w
       \<and> deploymentLister w' = deploymentLister w"
  by (auto simp: clientDeleteDeployment_def Let_def split: option.splits sum.splits)

lemma Eventf_frame [simp]:
  "resolved (Eventf e w) = resolved w" "tracked (Eventf e w) = tracked w"
  "events (Eventf e w) = events w @ [e]" "fault (Eventf e w) = fault w"
  "calls (Eventf e w) = calls w" "serviceAccounts (Eventf e w) = serviceAccounts w"
  "roleBindings (Eventf e w) = roleBindings w" "deployments (Eventf e w) = deployments w"
  "serviceAccountLister (Eventf e w) = serviceAccountLister w"
  "roleBindingLister (Eventf e w) = roleBindingLister w"
  "deploymentLister (Eventf e w) = deploymentLister w"
  by (simp_all add: Eventf_def)

lemma reconcileServiceAccount_frame:
  "reconcileServiceAccount env w s = (res, s', w')
   \<Longrightarrow> resolved w' = resolved w \<and> tracked w' = tracked w \<and> fault w' = fault w
       \<and> Spec s' = Spec s \<and> Namespace s' = Namespace s \<and> Name s' = Name s \<and> UID s' = UID s
       \<and> Annotations s' = Annotations s \<and> Marks (Status s') = Marks (Status s)
       \<and> StatusCloudEventAttributes (Status s') = StatusCloudEventAttributes (Status s)"
  by (auto simp: reconcileServiceAccount_def setStatusAnnotation_def Let_def
      split: sum.splits if_splits prod.splits option.splits
      dest!: clientCreateServiceAccount_frame)

lemma reconcileRoleBinding_frame:
  "reconcileRoleBinding env w s = (res, s', w')
   \<Longrightarrow> resolved w' = resolved w \<and> tracked w' = tracked w \<and> fault w' = fault w
       \<and> Spec s' = Spec s \<and> Namespace s' = Namespace s \<and> Name s' = Name s \<and> UID s' = UID s
       \<and> Annotations s' = Annotations s \<and> Marks (Status s') = Marks (Status s)
       \<and> StatusCloudEventAttributes (Status s') = StatusCloudEventAttributes (Status s)"
  by (auto simp: reconcileRoleBinding_def setStatusAnnotation_def Let_def
      split: sum.splits if_splits prod.splits option.splits
      dest!: clientCreateRoleBinding_frame)

lemma createExpected_frame:
  "createExpected ns d w = (res, w')
   \<Longrightarrow> resolved w' = resolved w \<and> tracked w' = tracked w \<and> fault w' = fault w"
  by (auto simp: createExpected_def split: sum.splits prod.splits
      dest!: clientCreateDeployment_frame)


lemma createReceiveAdapter_frame:
  "createReceiveAdapter env r w s uri = (res, w')
   \<Longrightarrow> resolved w' = resolved w \<and> tracked w' = tracked w \<and> fault w' = fault w"
  by (auto simp: createReceiveAdapter_def Let_def
      split: sum.splits if_splits prod.splits option.splits
      dest!: createExpected_frame clientDeleteDeployment_frame clientUpdateDeployment_frame)

lemma reconcileMTReceiveAdapter_frame:
  "reconcileMTReceiveAdapter env r w s = (res, w')
   \<Longrightarrow> resolved w' = resolved w \<and> tracked w' = tracked w \<and> fault w' = fault w"
  by (auto simp: reconcileMTReceiveAdapter_def Let_def
      split: sum.splits if_splits prod.splits option.splits
      dest!: clientCreateDeployment_frame clientUpdateDeployment_frame)

lemma reconcileResourceScope_frame:
  "reconcileResourceScope env r w s uri = (res, s', w')
   \<Longrightarrow> resolved w' = resolved w \<and> fault w' = fault w
       \<and> Spec s' = Spec s \<and> Namespace s' = Namespace s \<and> Name s' = Name s \<and> UID s' = UID s
       \<and> Annotations s' = Annotations s
       \<and> (\<exists>rest. Marks (Status s') = Marks (Status s) @ rest)"
  by (auto simp: reconcileResourceScope_def
      split: prod.splits ret.splits
      dest!: reconcileServiceAccount_frame reconcileRoleBinding_frame createReceiveAdapter_frame)

lemma reconcileClusterScope_frame:
  "reconcileClusterScope env r w s = (res, s', w')
   \<Longrightarrow> resolved w' = resolved w \<and> fault w' = fault w
       \<and> Spec s' = Spec s \<and> Namespace s' = Namespace s \<and> Name s' = Name s \<and> UID s' = UID s
       \<and> Annotations s' = Annotations s
       \<and> (\<exists>rest. Marks (Status s') = Marks (Status s) @ rest)"
  by (auto simp: reconcileClusterScope_def Let_def
      split: prod.splits ret.splits option.splits
      dest!: reconcileMTReceiveAdapter_frame)

lemma ReconcileKind_frame:
  assumes "ReconcileKind env r w s = (res, s', w')"
  shows "resolved w' = resolved w @ [sinkDestination s] \<and> fault w' = fault w
       \<and> Spec s' = Spec s \<and> Namespace s' = Namespace s \<and> Name s' = Name s \<and> UID s' = UID s
       \<and> Annotations s' = Annotations s"
proof (cases "URIFromDestinationV1 env (sinkDestination s) s")
  case (Inl err)
  with assms show ?thesis by (auto simp: ReconcileKind_no_sink)
next
  case (Inr uri)
  show ?thesis
  proof (cases "scopeOf env s = ScopeCluster env")
    case True
    with Inr assms show ?thesis
      by (auto simp: ReconcileKind_cluster split: prod.splits ret.splits
          dest!: reconcileClusterScope_frame)
  next
    case False
    with Inr assms show ?thesis
      by (auto simp: ReconcileKind_resource split: prod.splits ret.splits
          dest!: reconcileResourceScope_frame)
  qed
qed

subsection \<open>A reconcile changes the status of the source only\<close>

lemma reconcileResourceScope_source:
  "reconcileResourceScope env r w s uri = (res, s', w') \<Longrightarrow> s' = s\<lparr>Status := Status s'\<rparr>"
  by (auto simp: reconcileResourceScope_def reconcileServiceAccount_def reconcileRoleBinding_def
      setStatusAnnotation_def mark_def Let_def
      split: prod.splits ret.splits sum.splits if_splits option.splits)

lemma reconcileClusterScope_source:
  "reconcileClusterScope env r w s = (res, s', w') \<Longrightarrow> s' = s\<lparr>Status := Status s'\<rparr>"
  by (auto simp: reconcileClusterScope_def mark_def Let_def
      split: prod.splits ret.splits option.splits)

lemma ReconcileKind_source:
  assumes "ReconcileKind env r w s = (res, s', w')"
  shows "s' = s\<lparr>Status := Status s'\<rparr>"
proof (cases "URIFromDestinationV1 env (sinkDestination s) s")
  case (Inl err)
  with assms show ?thesis by (auto simp: ReconcileKind_no_sink mark_def)
next
  case (Inr uri)
  let ?s0 = "mark MarkSchedule (mark (MarkSink uri) s)"
  let ?w0 = "w\<lparr>resolved := resolved w @ [sinkDestination s]\<rparr>"
  have m: "?s0\<lparr>Status := st\<rparr> = s\<lparr>Status := st\<rparr>" for st
    by (simp add: mark_def)
  show ?thesis
  proof (cases "scopeOf env s = ScopeCluster env")
    case True
    obtain r1 s1 w1 where b: "reconcileClusterScope env r ?w0 ?s0 = (r1, s1, w1)"
      by (cases "reconcileClusterScope env r ?w0 ?s0") auto
    from reconcileClusterScope_source [OF b] m have "s1 = s\<lparr>Status := Status s1\<rparr>" by simp
    moreover from assms Inr True b have "s' = s1 \<or> s' = setCloudEventAttributes env s1"
      by (cases r1) (auto simp: ReconcileKind_cluster)
    ultimately show ?thesis
      by (metis (no_types, lifting) PingSource.surjective PingSource.update_convs(2)
          PingSource.select_convs(2) setCloudEventAttributes_def)
  next
    case False
    obtain r1 s1 w1 where b: "reconcileResourceScope env r ?w0 ?s0 uri = (r1, s1, w1)"
      by (cases "reconcileResourceScope env r ?w0 ?s0 uri") auto
    from reconcileResourceScope_source [OF b] m have "s1 = s\<lparr>Status := Status s1\<rparr>" by simp
    moreover from assms Inr False b have "s' = s1 \<or> s' = setCloudEventAttributes env s1"
      by (cases r1) (auto simp: ReconcileKind_resource)
    ultimately show ?thesis
      by (metis (no_types, lifting) PingSource.surjective PingSource.update_convs(2)
          PingSource.select_convs(2) setCloudEventAttributes_def)
  qed
qed

lemma status_blind_reads [simp]:
  "sinkDestination (s\<lparr>Status := st\<rparr>) = sinkDestination s"
  "scopeOf env (s\<lparr>Status := st\<rparr>) = scopeOf env s"
  "IsControlledBy ra (s\<lparr>Status := st\<rparr>) = IsControlledBy ra s"
  by (simp_all add: sinkDestination_def scopeOf_def IsControlledBy_def Let_def
      split: option.splits)

lemma expectedReceiveAdapter_blind:
  assumes "\<And>a st. MakeReceiveAdapter env (a\<lparr>ArgsSource := (ArgsSource a)\<lparr>Status := st\<rparr>\<rparr>)
                     = MakeReceiveAdapter env a"
  shows "expectedReceiveAdapter env r (s\<lparr>Status := st\<rparr>) uri = expectedReceiveAdapter env r s uri"
proof -
  let ?a = "\<lparr>ArgsImage = receiveAdapterImage r, ArgsSource = s,
             ArgsLabels = ResourceLabels env (Name s), ArgsSinkURI = uri,
             ArgsLoggingConfig = fst (LoggingConfigToJson env (loggingConfig r)),
             ArgsMetricsConfig = fst (MetricsOptionsToJson env (metricsConfig r))\<rparr>"
  from assms [where a = ?a and st = st] show ?thesis
    by (simp add: expectedReceiveAdapter_def)
qed

lemma env_resolver_irrelevant [simp]:
  "reconcileServiceAccount (env\<lparr>URIFromDestinationV1 := f\<rparr>) w s = reconcileServiceAccount env w s"
  "reconcileRoleBinding (env\<lparr>URIFromDestinationV1 := f\<rparr>) w s = reconcileRoleBinding env w s"
  "createReceiveAdapter (env\<lparr>URIFromDestinationV1 := f\<rparr>) r w s uri = createReceiveAdapter env r w s uri"
  "reconcileMTReceiveAdapter (env\<lparr>URIFromDestinationV1 := f\<rparr>) r w s = reconcileMTReceiveAdapter env r w s"
  by (simp_all add: reconcileServiceAccount_def reconcileRoleBinding_def
      createReceiveAdapter_def reconcileMTReceiveAdapter_def expectedReceiveAdapter_def
      expectedMTReceiveAdapter_def podSpecChanged_def Let_def
      cong: sum.case_cong option.case_cong prod.case_cong ret.case_cong if_cong)

lemma env_resolver_irrelevant_scope [simp]:
  "reconcileClusterScope (env\<lparr>URIFromDestinationV1 := f\<rparr>) r w s = reconcileClusterScope env r w s"
  "reconcileResourceScope (env\<lparr>URIFromDestinationV1 := f\<rparr>) r w s uri = reconcileResourceScope env r w s uri"
  by (simp_all add: reconcileClusterScope_def reconcileResourceScope_def Let_def
      cong: sum.case_cong option.case_cong prod.case_cong ret.case_cong if_cong)

subsection \<open>A first run leaves every object in place\<close>

lemma reconcileServiceAccount_post:
  assumes "serviceAccountLister w = listerOf (serviceAccounts w)" "fault w = (\<lambda>c. None)"
    and "\<And>s n. Name (MakeServiceAccount env s n) = n"
    and "reconcileServiceAccount env w s = (res, s', w')"
  shows "(\<exists>sa. res = Ret sa) \<and> s' = s
       \<and> lookup (serviceAccounts w') (Namespace s) (CreateReceiveAdapterName env (Name s) (UID s)) \<noteq> None
       \<and> roleBindings w' = roleBindings w \<and> deployments w' = deployments w
       \<and> roleBindingLister w' = roleBindingLister w \<and> deploymentLister w' = deploymentLister w
       \<and> fault w' = fault w"
proof (cases "lookup (serviceAccounts w) (Namespace s) (CreateReceiveAdapterName env (Name s) (UID s))")
  case None
  with assms show ?thesis
    by (auto simp: reconcileServiceAccount_def listerOf_def clientCreateServiceAccount_def
        storeCreate_def Let_def lookup_append_new)
next
  case (Some sa)
  with assms show ?thesis
    by (auto simp: reconcileServiceAccount_def listerOf_def)
qed

lemma reconcileRoleBinding_post:
  assumes "roleBindingLister w = listerOf (roleBindings w)" "fault w = (\<lambda>c. None)"
    and "\<And>s n c. Name (MakeRoleBinding env s n c) = n"
    and "reconcileRoleBinding env w s = (res, s', w')"
  shows "(\<exists>rb. res = Ret rb) \<and> s' = s
       \<and> lookup (roleBindings w') (Namespace s) (CreateReceiveAdapterName env (Name s) (UID s)) \<noteq> None
       \<and> serviceAccounts w' = serviceAccounts w \<and> deployments w' = deployments w
       \<and> serviceAccountLister w' = serviceAccountLister w \<and> deploymentLister w' = deploymentLister w
       \<and> fault w' = fault w"
proof (cases "lookup (roleBindings w) (Namespace s) (CreateReceiveAdapterName env (Name s) (UID s))")
  case None
  with assms show ?thesis
    by (auto simp: reconcileRoleBinding_def listerOf_def clientCreateRoleBinding_def
        storeCreate_def Let_def lookup_append_new)
next
  case (Some rb)
  with assms show ?thesis
    by (auto simp: reconcileRoleBinding_def listerOf_def)
qed

lemma createExpected_post:
  assumes "fault w = (\<lambda>c. None)" "lookup (deployments w) ns (Name d) = None"
  shows "lookup (deployments (snd (createExpected ns d w))) ns (Name d) = Some d
       \<and> serviceAccounts (snd (createExpected ns d w)) = serviceAccounts w
       \<and> roleBindings (snd (createExpected ns d w)) = roleBindings w"
  using assms
  by (simp add: createExpected_def clientCreateDeployment_def storeCreate_def Let_def
      lookup_append_new)

lemma expectedReceiveAdapter_controlled:
  assumes "\<And>a. IsControlledBy (MakeReceiveAdapter env a) (ArgsSource a)"
  shows "IsControlledBy (expectedReceiveAdapter env r s uri) s"
proof -
  let ?a = "\<lparr>ArgsImage = receiveAdapterImage r, ArgsSource = s,
             ArgsLabels = ResourceLabels env (Name s), ArgsSinkURI = uri,
             ArgsLoggingConfig = fst (LoggingConfigToJson env (loggingConfig r)),
             ArgsMetricsConfig = fst (MetricsOptionsToJson env (metricsConfig r))\<rparr>"
  from assms [where a = ?a] show ?thesis
    by (simp add: expectedReceiveAdapter_def)
qed

lemma createReceiveAdapter_post:
  assumes l: "deploymentLister w = listerOf (deployments w)" and f: "fault w = (\<lambda>c. None)"
    and refl: "\<And>p. DeepDerivative env p p"
    and ctl: "\<And>a. IsControlledBy (MakeReceiveAdapter env a) (ArgsSource a)"
    and run: "createReceiveAdapter env r w s uri = (res, w')"
  shows "(\<exists>ra. lookup (deployments w') (Namespace s) (Name (expectedReceiveAdapter env r s uri)) = Some ra
            \<and> (\<not> IsControlledBy ra s
               \<or> DeepDerivative env (SpecTemplateSpec (expectedReceiveAdapter env r s uri)) (SpecTemplateSpec ra))
            \<and> ((\<exists>x. res = Ret x) \<longrightarrow> IsControlledBy ra s))
       \<and> serviceAccounts w' = serviceAccounts w \<and> roleBindings w' = roleBindings w"
proof (cases "lookup (deployments w) (Namespace s) (Name (expectedReceiveAdapter env r s uri))")
  case None
  let ?exp = "expectedReceiveAdapter env r s uri"
  have own: "IsControlledBy ?exp s" by (rule expectedReceiveAdapter_controlled [OF ctl])
  let ?dep = "GenerateFixedName env s (''pingsource-'' @ Name s)"
  from None l have nf: "deploymentLister w (Namespace s) (Name ?exp) = Inl (StatusError StatusReasonNotFound)"
    by (simp add: listerOf_def)
  show ?thesis
  proof (cases "?dep = Name ?exp")
    case True
    with nf run have "w' = snd (createExpected (Namespace s) ?exp w)"
      by (simp add: createReceiveAdapter_def Let_def)
    with createExpected_post [OF f None] refl own show ?thesis by auto
  next
    case False
    obtain derr w1 where d: "clientDeleteDeployment (Namespace s) ?dep w = (derr, w1)"
      by (cases "clientDeleteDeployment (Namespace s) ?dep w") auto
    let ?w2 = "Eventf (Recorded EventTypeNormal pingSourceDeploymentDeleted
                   ''Deprecated deployment removed: \"%s/%s\"'' [S (Namespace s), S ?dep]) w1"
    from d f None have d1: "fault w1 = (\<lambda>c. None)"
      and d2: "lookup (deployments w1) (Namespace s) (Name ?exp) = None"
      and d3: "serviceAccounts w1 = serviceAccounts w" "roleBindings w1 = roleBindings w"
      and d4: "derr = None \<or> derr = Some (StatusError StatusReasonNotFound)"
      by (auto simp: clientDeleteDeployment_def storeDelete_def Let_def lookup_filter_None
          split: option.splits)
    from d4 nf False d run have "w' = snd (createExpected (Namespace s) ?exp ?w2)"
      by (auto simp: createReceiveAdapter_def Let_def)
    moreover from d1 d2 have "fault ?w2 = (\<lambda>c. None)"
      "lookup (deployments ?w2) (Namespace s) (Name ?exp) = None"
      by simp_all
    ultimately show ?thesis
      using createExpected_post [of ?w2 "Namespace s" ?exp] refl own d3 by auto
  qed
next
  case (Some ra)
  let ?exp = "expectedReceiveAdapter env r s uri"
  from Some l have found: "deploymentLister w (Namespace s) (Name ?exp) = Inr ra"
    by (simp add: listerOf_def)
  from Some have nm: "Name ra = Name ?exp" by (rule lookup_Name)
  show ?thesis
  proof (cases "IsControlledBy ra s \<and> podSpecChanged env (SpecTemplateSpec ra) (SpecTemplateSpec ?exp)")
    case False
    with found run have "w' = w" and "(\<exists>x. res = Ret x) \<longrightarrow> IsControlledBy ra s"
      by (auto simp: createReceiveAdapter_def Let_def split: if_splits)
    with False Some show ?thesis by (auto simp: podSpecChanged_def)
  next
    case True
    let ?ra' = "ra\<lparr>SpecTemplateSpec := SpecTemplateSpec ?exp\<rparr>"
    from Some nm have "lookup (deployments w) (Namespace s) (Name ?ra') = Some ra" by simp
    from lookup_update [OF this] nm
    have "lookup (map (\<lambda>(m, y). if m = Namespace s \<and> Name y = Name ?ra' then (Namespace s, ?ra') else (m, y))
             (deployments w)) (Namespace s) (Name ?exp) = Some ?ra'"
      by simp
    with True found run f Some nm
    have "lookup (deployments w') (Namespace s) (Name ?exp) = Some ?ra'
        \<and> serviceAccounts w' = serviceAccounts w \<and> roleBindings w' = roleBindings w"
      by (auto simp: createReceiveAdapter_def Let_def clientUpdateDeployment_def storeUpdate_def)
    moreover from True have "IsControlledBy ?ra' s"
      by (simp add: IsControlledBy_def GetControllerOf_def)
    ultimately show ?thesis using refl by auto
  qed
qed

lemma reconcileMTReceiveAdapter_post:
  assumes l: "deploymentLister w = listerOf (deployments w)" and f: "fault w = (\<lambda>c. None)"
    and nm: "\<And>a. Name (MakeMTReceiveAdapter env a) = MTAdapterName a"
    and refl: "\<And>p. DeepDerivative env p p"
    and run: "reconcileMTReceiveAdapter env r w s = (res, w')"
  shows "\<exists>d. lookup (deployments w') (systemNamespace env) mtadapterName = Some d
            \<and> DeepDerivative env (SpecTemplateSpec (expectedMTReceiveAdapter env r)) (SpecTemplateSpec d)"
proof (cases "lookup (deployments w) (systemNamespace env) mtadapterName")
  case None
  let ?exp = "expectedMTReceiveAdapter env r"
  have en: "Name ?exp = mtadapterName"
    by (simp add: expectedMTReceiveAdapter_def nm)
  with None l f run have "lookup (deployments w') (systemNamespace env) mtadapterName = Some ?exp"
    using lookup_append_new [of "deployments w" "systemNamespace env" mtadapterName ?exp]
    by (auto simp: reconcileMTReceiveAdapter_def listerOf_def clientCreateDeployment_def
        storeCreate_def Let_def)
  with refl show ?thesis by auto
next
  case (Some d)
  let ?exp = "expectedMTReceiveAdapter env r"
  from Some l have found: "deploymentLister w (systemNamespace env) mtadapterName = Inr d"
    by (simp add: listerOf_def)
  from Some have dn: "Name d = mtadapterName" by (rule lookup_Name)
  show ?thesis
  proof (cases "podSpecChanged env (SpecTemplateSpec d) (SpecTemplateSpec ?exp)")
    case False
    with found run have "w' = w"
      by (auto simp: reconcileMTReceiveAdapter_def Let_def split: if_splits)
    with False Some show ?thesis by (auto simp: podSpecChanged_def)
  next
    case True
    let ?d' = "d\<lparr>SpecTemplateSpec := SpecTemplateSpec ?exp\<rparr>"
    from Some dn have "lookup (deployments w) (systemNamespace env) (Name ?d') = Some d" by simp
    from lookup_update [OF this] dn
    have "lookup (map (\<lambda>(m, y). if m = systemNamespace env \<and> Name y = Name ?d'
                                then (systemNamespace env, ?d') else (m, y))
             (deployments w)) (systemNamespace env) mtadapterName = Some ?d'"
      by simp
    with True found run f Some dn
    have "lookup (deployments w') (systemNamespace env) mtadapterName = Some ?d'"
      by (auto simp: reconcileMTReceiveAdapter_def Let_def clientUpdateDeployment_def storeUpdate_def)
    with refl show ?thesis by auto
  qed
qed

lemma reconcileResourceScope_post:
  assumes l: "serviceAccountLister w = listerOf (serviceAccounts w)"
      "roleBindingLister w = listerOf (roleBindings w)"
      "deploymentLister w = listerOf (deployments w)"
    and f: "fault w = (\<lambda>c. None)"
    and sa_name: "\<And>s n. Name (MakeServiceAccount env s n) = n"
    and rb_name: "\<And>s n c. Name (MakeRoleBinding env s n c) = n"
    and refl: "\<And>p. DeepDerivative env p p"
    and ctl: "\<And>a. IsControlledBy (MakeReceiveAdapter env a) (ArgsSource a)"
    and run: "reconcileResourceScope env r w s uri = (res, s', w')"
  shows "lookup (serviceAccounts w') (Namespace s) (CreateReceiveAdapterName env (Name s) (UID s)) \<noteq> None
       \<and> lookup (roleBindings w') (Namespace s) (CreateReceiveAdapterName env (Name s) (UID s)) \<noteq> None
       \<and> (\<exists>ra. lookup (deployments w') (Namespace s) (Name (expectedReceiveAdapter env r s uri)) = Some ra
            \<and> (\<not> IsControlledBy ra s
               \<or> DeepDerivative env (SpecTemplateSpec (expectedReceiveAdapter env r s uri)) (SpecTemplateSpec ra))
            \<and> (res = Ret () \<longrightarrow> IsControlledBy ra s))"
proof -
  obtain r1 s1 w1 where a: "reconcileServiceAccount env w s = (r1, s1, w1)"
    by (cases "reconcileServiceAccount env w s") auto
  note pa = reconcileServiceAccount_post [OF l(1) f sa_name a]
  then obtain sa where r1: "r1 = Ret sa" and s1: "s1 = s" by auto
  obtain r2 s2 w2 where b: "reconcileRoleBinding env w1 s = (r2, s2, w2)"
    by (cases "reconcileRoleBinding env w1 s") auto
  from pa l f have l1: "roleBindingLister w1 = listerOf (roleBindings w1)" "fault w1 = (\<lambda>c. None)"
    by simp_all
  note pb = reconcileRoleBinding_post [OF l1 rb_name b]
  then obtain rb where r2: "r2 = Ret rb" and s2: "s2 = s" by auto
  obtain r3 w3 where c: "createReceiveAdapter env r w2 s uri = (r3, w3)"
    by (cases "createReceiveAdapter env r w2 s uri") auto
  from pa pb l f have l2: "deploymentLister w2 = listerOf (deployments w2)" "fault w2 = (\<lambda>c. None)"
    by simp_all
  note pc = createReceiveAdapter_post [OF l2 refl ctl c]
  from run a b c r1 s1 r2 s2 have w3: "w' = w3"
    by (cases r3) (simp_all add: reconcileResourceScope_def)
  from run a b c r1 s1 r2 s2 have r3: "res = Ret () \<longrightarrow> (\<exists>x. r3 = Ret x)"
    by (cases r3) (auto simp: reconcileResourceScope_def)
  from pc obtain ra where
    "lookup (deployments w3) (Namespace s) (Name (expectedReceiveAdapter env r s uri)) = Some ra"
    "\<not> IsControlledBy ra s
       \<or> DeepDerivative env (SpecTemplateSpec (expectedReceiveAdapter env r s uri)) (SpecTemplateSpec ra)"
    "(\<exists>x. r3 = Ret x) \<longrightarrow> IsControlledBy ra s"
    by blast
  with r3 w3 have "\<exists>ra. lookup (deployments w') (Namespace s) (Name (expectedReceiveAdapter env r s uri)) = Some ra
            \<and> (\<not> IsControlledBy ra s
               \<or> DeepDerivative env (SpecTemplateSpec (expectedReceiveAdapter env r s uri)) (SpecTemplateSpec ra))
            \<and> (res = Ret () \<longrightarrow> IsControlledBy ra s)"
    by blast
  with pa pb pc w3 show ?thesis by simp
qed

lemma reconcileResourceScope_settled:
  assumes l: "serviceAccountLister w = listerOf (serviceAccounts w)"
      "roleBindingLister w = listerOf (roleBindings w)"
      "deploymentLister w = listerOf (deployments w)"
    and sa: "lookup (serviceAccounts w) (Namespace s) (CreateReceiveAdapterName env (Name s) (UID s)) \<noteq> None"
    and rb: "lookup (roleBindings w) (Namespace s) (CreateReceiveAdapterName env (Name s) (UID s)) \<noteq> None"
    and ra: "lookup (deployments w) (Namespace s) (Name (expectedReceiveAdapter env r s uri)) = Some ra"
    and ok: "\<not> IsControlledBy ra s
               \<or> DeepDerivative env (SpecTemplateSpec (expectedReceiveAdapter env r s uri)) (SpecTemplateSpec ra)"
  shows "snd (snd (reconcileResourceScope env r w s uri)) = w"
proof -
  from sa l obtain x where "serviceAccountLister w (Namespace s) (CreateReceiveAdapterName env (Name s) (UID s)) = Inr x"
    by (auto simp: listerOf_def)
  then have a: "reconcileServiceAccount env w s = (Ret x, s, w)"
    by (rule reconcileServiceAccount_found)
  from rb l obtain y where "roleBindingLister w (Namespace s) (CreateReceiveAdapterName env (Name s) (UID s)) = Inr y"
    by (auto simp: listerOf_def)
  then have b: "reconcileRoleBinding env w s = (Ret y, s, w)"
    by (rule reconcileRoleBinding_found)
  from ra l have f: "deploymentLister w (Namespace s) (Name (expectedReceiveAdapter env r s uri)) = Inr ra"
    by (simp add: listerOf_def)
  have c: "snd (createReceiveAdapter env r w s uri) = w"
  proof (cases "IsControlledBy ra s")
    case False
    with f show ?thesis by (simp add: createReceiveAdapter_foreign)
  next
    case True
    with f ok show ?thesis by (simp add: createReceiveAdapter_reuse)
  qed
  obtain r3 w3 where d: "createReceiveAdapter env r w s uri = (r3, w3)"
    by (cases "createReceiveAdapter env r w s uri") auto
  with c have "w3 = w" by simp
  with a b d show ?thesis
    by (cases r3) (simp_all add: reconcileResourceScope_def)
qed

lemma reconcileClusterScope_post:
  assumes l: "deploymentLister w = listerOf (deployments w)" and f: "fault w = (\<lambda>c. None)"
    and nm: "\<And>a. Name (MakeMTReceiveAdapter env a) = MTAdapterName a"
    and refl: "\<And>p. DeepDerivative env p p"
    and run: "reconcileClusterScope env r w s = (res, s', w')"
  shows "\<exists>d. lookup (deployments w') (systemNamespace env) mtadapterName = Some d
            \<and> DeepDerivative env (SpecTemplateSpec (expectedMTReceiveAdapter env r)) (SpecTemplateSpec d)"
proof -
  obtain r1 w1 where a: "reconcileMTReceiveAdapter env r w s = (r1, w1)"
    by (cases "reconcileMTReceiveAdapter env r w s") auto
  note p = reconcileMTReceiveAdapter_post [OF l f nm refl a]
  from run a have "deployments w' = deployments w1"
    by (cases r1) (auto simp: reconcileClusterScope_def Let_def split: option.splits)
  with p show ?thesis by simp
qed

lemma reconcileClusterScope_settled:
  assumes l: "deploymentLister w = listerOf (deployments w)"
    and d: "lookup (deployments w) (systemNamespace env) mtadapterName = Some d"
    and ok: "DeepDerivative env (SpecTemplateSpec (expectedMTReceiveAdapter env r)) (SpecTemplateSpec d)"
    and run: "reconcileClusterScope env r w s = (res, s', w')"
  shows "calls w' = calls w \<and> events w' = events w \<and> serviceAccounts w' = serviceAccounts w
       \<and> roleBindings w' = roleBindings w \<and> deployments w' = deployments w"
proof -
  from d l have "deploymentLister w (systemNamespace env) mtadapterName = Inr d"
    by (simp add: listerOf_def)
  with ok have "reconcileMTReceiveAdapter env r w s = (Ret d, w)"
    by (simp add: reconcileMTReceiveAdapter_reuse)
  with run show ?thesis
    by (auto simp: reconcileClusterScope_def Let_def split: option.splits)
qed

section \<open>The claims\<close>

subsection \<open>C1: ownership\<close>

text \<open>
  Claim C1 (ownership check), as the code has it. A deployment that the lister finds under
  the expected name and that the source does not control makes \<open>createReceiveAdapter\<close>
  return the error \<open>deployment ... is not owned by PingSource ...\<close> and leave the world
  as it was: no create, update or delete, and no event. A service account or a role
  binding that the lister finds under the expected name is returned as found, and the
  world is left as it was: no create, update or delete. With all three found and the
  deployment not controlled, the per-source branch returns that error, wrapped as
  \<open>creating receive adapter: ...\<close>, with the source and the world unchanged.
\<close>

theorem ownership_check:
  "(deploymentLister w (Namespace src) (Name (expectedReceiveAdapter env r src uri)) = Inr ra
      \<and> \<not> IsControlledBy ra src \<longrightarrow>
      createReceiveAdapter env r w src uri =
        (Err (Errorf ''deployment %q is not owned by PingSource %q'' [S (Name ra), S (Name src)]), w))
   \<and> (serviceAccountLister w (Namespace src) (CreateReceiveAdapterName env (Name src) (UID src)) = Inr sa
      \<longrightarrow> reconcileServiceAccount env w src = (Ret sa, src, w))
   \<and> (roleBindingLister w (Namespace src) (CreateReceiveAdapterName env (Name src) (UID src)) = Inr rb
      \<longrightarrow> reconcileRoleBinding env w src = (Ret rb, src, w))
   \<and> (serviceAccountLister w (Namespace src) (CreateReceiveAdapterName env (Name src) (UID src)) = Inr sa
      \<and> roleBindingLister w (Namespace src) (CreateReceiveAdapterName env (Name src) (UID src)) = Inr rb
      \<and> deploymentLister w (Namespace src) (Name (expectedReceiveAdapter env r src uri)) = Inr ra
      \<and> \<not> IsControlledBy ra src \<longrightarrow>
      reconcileResourceScope env r w src uri =
        (Err (Errorf ''creating receive adapter: %v''
               [E (Errorf ''deployment %q is not owned by PingSource %q'' [S (Name ra), S (Name src)])]),
         src, w))"
  by (simp add: createReceiveAdapter_foreign reconcileServiceAccount_found
      reconcileRoleBinding_found reconcileResourceScope_def)

text \<open>
  The example: a deployment named \<open>pingsource-p1-abc\<close> whose controller is \<open>xyz\<close>,
  beside a service account and a role binding of \<open>p1\<close>.
\<close>

theorem ownership_check_witness:
  "\<not> IsControlledBy (ex_deployment ''pingsource-p1-abc'' ''xyz'' ex_desired_pod) ex_marked
   \<and> createReceiveAdapter ex_env ex_r
        (ex_stored [ex_sa ''abc''] [ex_rb ''abc''] [ex_deployment ''pingsource-p1-abc'' ''xyz'' ex_desired_pod])
        ex_marked ''http://svc1.default.svc.cluster.local'' =
      (Err (Errorf ''deployment %q is not owned by PingSource %q'' [S ''pingsource-p1-abc'', S ''p1'']),
       ex_stored [ex_sa ''abc''] [ex_rb ''abc''] [ex_deployment ''pingsource-p1-abc'' ''xyz'' ex_desired_pod])
   \<and> reconcileServiceAccount ex_env
        (ex_stored [ex_sa ''abc''] [ex_rb ''abc''] [ex_deployment ''pingsource-p1-abc'' ''xyz'' ex_desired_pod])
        ex_marked =
      (Ret (ex_sa ''abc''), ex_marked,
       ex_stored [ex_sa ''abc''] [ex_rb ''abc''] [ex_deployment ''pingsource-p1-abc'' ''xyz'' ex_desired_pod])
   \<and> reconcileRoleBinding ex_env
        (ex_stored [ex_sa ''abc''] [ex_rb ''abc''] [ex_deployment ''pingsource-p1-abc'' ''xyz'' ex_desired_pod])
        ex_marked =
      (Ret (ex_rb ''abc''), ex_marked,
       ex_stored [ex_sa ''abc''] [ex_rb ''abc''] [ex_deployment ''pingsource-p1-abc'' ''xyz'' ex_desired_pod])
   \<and> reconcileResourceScope ex_env ex_r
        (ex_stored [ex_sa ''abc''] [ex_rb ''abc''] [ex_deployment ''pingsource-p1-abc'' ''xyz'' ex_desired_pod])
        ex_marked ''http://svc1.default.svc.cluster.local'' =
      (Err (Errorf ''creating receive adapter: %v''
             [E (Errorf ''deployment %q is not owned by PingSource %q''
                   [S ''pingsource-p1-abc'', S ''p1''])]),
       ex_marked,
       ex_stored [ex_sa ''abc''] [ex_rb ''abc''] [ex_deployment ''pingsource-p1-abc'' ''xyz'' ex_desired_pod])"
proof -
  let ?d = "ex_deployment ''pingsource-p1-abc'' ''xyz'' ex_desired_pod"
  let ?w = "ex_stored [ex_sa ''abc''] [ex_rb ''abc''] [?d]"
  let ?uri = "''http://svc1.default.svc.cluster.local''"
  have f: "\<not> IsControlledBy ?d ex_marked"
    by (simp add: client_defs ex_defs ex_defs2 mark_def)
  have n: "Namespace ex_marked = ''default''" "Name ex_marked = ''p1''" "UID ex_marked = ''abc''"
    by (simp_all add: ex_defs ex_defs2)
  have c: "CreateReceiveAdapterName ex_env ''p1'' ''abc'' = ''pingsource-p1-abc''"
    by (simp add: ex_defs)
  have x: "Name (expectedReceiveAdapter ex_env ex_r ex_marked ?uri) = ''pingsource-p1-abc''"
    by (simp add: expectedReceiveAdapter_def ex_defs ex_defs2)
  have l: "serviceAccountLister ?w ''default'' ''pingsource-p1-abc'' = Inr (ex_sa ''abc'')"
    "roleBindingLister ?w ''default'' ''pingsource-p1-abc'' = Inr (ex_rb ''abc'')"
    "deploymentLister ?w ''default'' ''pingsource-p1-abc'' = Inr ?d"
    by (simp_all add: client_defs ex_defs ex_defs2)
  have m: "Name ?d = ''pingsource-p1-abc''" by (simp add: ex_defs2)
  note T = ownership_check [of ?w ex_marked ex_env ex_r ?uri ?d "ex_sa ''abc''" "ex_rb ''abc''"]
  from T f n c x l m
  have 1: "createReceiveAdapter ex_env ex_r ?w ex_marked ?uri =
      (Err (Errorf ''deployment %q is not owned by PingSource %q'' [S ''pingsource-p1-abc'', S ''p1'']), ?w)"
    by simp
  from T n c l have 2: "reconcileServiceAccount ex_env ?w ex_marked = (Ret (ex_sa ''abc''), ex_marked, ?w)"
    by simp
  from T n c l have 3: "reconcileRoleBinding ex_env ?w ex_marked = (Ret (ex_rb ''abc''), ex_marked, ?w)"
    by simp
  from T f n c x l m
  have 4: "reconcileResourceScope ex_env ex_r ?w ex_marked ?uri =
      (Err (Errorf ''creating receive adapter: %v''
             [E (Errorf ''deployment %q is not owned by PingSource %q''
                   [S ''pingsource-p1-abc'', S ''p1''])]), ex_marked, ?w)"
    by simp
  from f 1 2 3 4 show ?thesis by blast
qed

text \<open>
  C1 as the specification words it asks for the ownership error for all three kinds. That
  does not hold: with a service account and a role binding under the expected name that
  another owner controls, and a deployment of its own, the reconcile of \<open>p1\<close> succeeds.
\<close>

theorem foreign_service_account_counterexample:
  "\<not> IsControlledBy (ex_sa ''xyz'') ex_resource
   \<and> \<not> IsControlledBy (ex_rb ''xyz'') ex_resource
   \<and> ReconcileKind ex_env ex_r
        (ex_stored [ex_sa ''xyz''] [ex_rb ''xyz''] [ex_deployment ''pingsource-p1-abc'' ''abc'' ex_desired_pod])
        ex_resource =
      (Ret (),
       setCloudEventAttributes ex_env
         (mark (PropagateDeploymentAvailability (ex_deployment ''pingsource-p1-abc'' ''abc'' ex_desired_pod))
            ex_marked),
       ex_stored [ex_sa ''xyz''] [ex_rb ''xyz''] [ex_deployment ''pingsource-p1-abc'' ''abc'' ex_desired_pod]
         \<lparr>resolved := [sinkDestination ex_resource]\<rparr>)"
  by (simp add: client_defs step_defs ex_defs ex_defs2 const_defs Let_def)

subsection \<open>C2: idempotence\<close>

text \<open>
  Claim C2 (idempotence). Take a client none of whose calls is made to fail, listers that
  agree with the store at the start of each run, and code outside the file as follows: the
  service account, the role binding and the shared deployment are built with the name
  asked for; the resolver and the builder of the per-source deployment do not read the
  status of the source; the per-source deployment is built with the source as its
  controller; every pod spec is a derivative of itself. Then a second reconcile of the
  source, as the first reconcile left it, makes no client call and records no event, and
  the three stores are as the first reconcile left them. When the sink resolves, the
  listers of the second reconcile find every object of the branch: the shared deployment,
  with no drift; or the service account, the role binding and the per-source deployment,
  which the source controls when the first reconcile returned no error, and which shows
  no drift when the source controls it.
\<close>

theorem reconcile_twice_no_writes:
  assumes nofault: "fault w = (\<lambda>c. None)"
    and sa_name: "\<And>s n. Name (MakeServiceAccount env s n) = n"
    and rb_name: "\<And>s n c. Name (MakeRoleBinding env s n c) = n"
    and mt_name: "\<And>a. Name (MakeMTReceiveAdapter env a) = MTAdapterName a"
    and resolver_blind:
      "\<And>d s st. URIFromDestinationV1 env d (s\<lparr>Status := st\<rparr>) = URIFromDestinationV1 env d s"
    and builder_blind:
      "\<And>a st. MakeReceiveAdapter env (a\<lparr>ArgsSource := (ArgsSource a)\<lparr>Status := st\<rparr>\<rparr>)
                 = MakeReceiveAdapter env a"
    and builder_controls: "\<And>a. IsControlledBy (MakeReceiveAdapter env a) (ArgsSource a)"
    and refl: "\<And>p. DeepDerivative env p p"
    and run1: "ReconcileKind env r (sync w) source = (res1, source1, w1)"
    and run2: "ReconcileKind env r (sync w1) source1 = (res2, source2, w2)"
  shows "calls w2 = calls w1 \<and> events w2 = events w1
       \<and> serviceAccounts w2 = serviceAccounts w1 \<and> roleBindings w2 = roleBindings w1
       \<and> deployments w2 = deployments w1
       \<and> (\<forall>uri. URIFromDestinationV1 env (sinkDestination source1) source1 = Inr uri \<longrightarrow>
            (if scopeOf env source1 = ScopeCluster env
             then \<exists>d. deploymentLister (sync w1) (systemNamespace env) mtadapterName = Inr d
                    \<and> \<not> podSpecChanged env (SpecTemplateSpec d)
                          (SpecTemplateSpec (expectedMTReceiveAdapter env r))
             else \<exists>sa rb ra.
                    serviceAccountLister (sync w1) (Namespace source1)
                        (CreateReceiveAdapterName env (Name source1) (UID source1)) = Inr sa
                  \<and> roleBindingLister (sync w1) (Namespace source1)
                        (CreateReceiveAdapterName env (Name source1) (UID source1)) = Inr rb
                  \<and> deploymentLister (sync w1) (Namespace source1)
                        (Name (expectedReceiveAdapter env r
                                 (mark MarkSchedule (mark (MarkSink uri) source1)) uri)) = Inr ra
                  \<and> (res1 = Ret () \<longrightarrow> IsControlledBy ra source1)
                  \<and> (IsControlledBy ra source1 \<longrightarrow>
                        \<not> podSpecChanged env (SpecTemplateSpec ra)
                             (SpecTemplateSpec (expectedReceiveAdapter env r
                                 (mark MarkSchedule (mark (MarkSink uri) source1)) uri)))))"
    (is "_ \<and> _ \<and> _ \<and> _ \<and> _ \<and> ?found")
proof -
  let ?writes = "calls w2 = calls w1 \<and> events w2 = events w1
       \<and> serviceAccounts w2 = serviceAccounts w1 \<and> roleBindings w2 = roleBindings w1
       \<and> deployments w2 = deployments w1"
  from ReconcileKind_source [OF run1] obtain st1 where s1: "source1 = source\<lparr>Status := st1\<rparr>"
    by blast
  let ?dest = "sinkDestination source"
  have dest1: "sinkDestination source1 = ?dest" by (simp add: s1)
  have res1: "URIFromDestinationV1 env ?dest source1 = URIFromDestinationV1 env ?dest source"
    by (simp add: s1 resolver_blind)
  have scope1: "scopeOf env source1 = scopeOf env source" by (simp add: s1)
  let ?v0 = "(sync w)\<lparr>resolved := resolved (sync w) @ [?dest]\<rparr>"
  let ?v1 = "(sync w1)\<lparr>resolved := resolved (sync w1) @ [?dest]\<rparr>"
  have lv0: "serviceAccountLister ?v0 = listerOf (serviceAccounts ?v0)"
    "roleBindingLister ?v0 = listerOf (roleBindings ?v0)"
    "deploymentLister ?v0 = listerOf (deployments ?v0)" "fault ?v0 = (\<lambda>c. None)"
    using nofault by simp_all
  have lv1: "serviceAccountLister ?v1 = listerOf (serviceAccounts ?v1)"
    "roleBindingLister ?v1 = listerOf (roleBindings ?v1)"
    "deploymentLister ?v1 = listerOf (deployments ?v1)"
    by simp_all
  show ?thesis
  proof (cases "URIFromDestinationV1 env ?dest source")
    case (Inl err)
    with res1 dest1 run2 have ?writes
      by (auto simp: ReconcileKind_no_sink)
    moreover from Inl res1 dest1 have ?found by simp
    ultimately show ?thesis by blast
  next
    case (Inr uri)
    let ?s0 = "mark MarkSchedule (mark (MarkSink uri) source)"
    let ?s1 = "mark MarkSchedule (mark (MarkSink uri) source1)"
    obtain st where s01: "?s1 = ?s0\<lparr>Status := st\<rparr>"
      by (simp add: s1 mark_def)
    from Inr res1 dest1 have ok2: "URIFromDestinationV1 env (sinkDestination source1) source1 = Inr uri"
      by simp
    show ?thesis
    proof (cases "scopeOf env source = ScopeCluster env")
      case True
      obtain r1 t1 u1 where b1: "reconcileClusterScope env r ?v0 ?s0 = (r1, t1, u1)"
        by (cases "reconcileClusterScope env r ?v0 ?s0") auto
      from run1 Inr True b1 have u1: "u1 = w1"
        by (cases r1) (auto simp: ReconcileKind_cluster)
      from reconcileClusterScope_post [OF lv0(3) lv0(4) mt_name refl b1] u1
      obtain d where d: "lookup (deployments w1) (systemNamespace env) mtadapterName = Some d"
        and dd: "DeepDerivative env (SpecTemplateSpec (expectedMTReceiveAdapter env r)) (SpecTemplateSpec d)"
        by auto
      obtain r2 t2 u2 where b2: "reconcileClusterScope env r ?v1 ?s1 = (r2, t2, u2)"
        by (cases "reconcileClusterScope env r ?v1 ?s1") auto
      from d have d': "lookup (deployments ?v1) (systemNamespace env) mtadapterName = Some d"
        by simp
      note q = reconcileClusterScope_settled [OF lv1(3) d' dd b2]
      from run2 ok2 True scope1 dest1 b2 have "w2 = u2"
        by (cases r2) (auto simp: ReconcileKind_cluster)
      with q have ?writes by simp
      moreover from d dd
      have "deploymentLister (sync w1) (systemNamespace env) mtadapterName = Inr d
          \<and> \<not> podSpecChanged env (SpecTemplateSpec d) (SpecTemplateSpec (expectedMTReceiveAdapter env r))"
        by (simp add: listerOf_def podSpecChanged_def)
      with True scope1 have ?found by auto
      ultimately show ?thesis by blast
    next
      case False
      obtain r1 t1 u1 where b1: "reconcileResourceScope env r ?v0 ?s0 uri = (r1, t1, u1)"
        by (cases "reconcileResourceScope env r ?v0 ?s0 uri") auto
      from run1 Inr False b1 have u1: "u1 = w1"
        by (cases r1) (auto simp: ReconcileKind_resource)
      from run1 Inr False b1 have ok1: "res1 = Ret () \<longrightarrow> r1 = Ret ()"
        by (cases r1) (auto simp: ReconcileKind_resource)
      note p = reconcileResourceScope_post [OF lv0(1) lv0(2) lv0(3) lv0(4) sa_name rb_name refl
          builder_controls b1]
      have ids: "Namespace ?s1 = Namespace ?s0" "Name ?s1 = Name ?s0" "UID ?s1 = UID ?s0"
        by (simp_all add: s1)
      have ids1: "Namespace source1 = Namespace ?s0" "Name source1 = Name ?s0" "UID source1 = UID ?s0"
        by (simp_all add: s1)
      have exp: "expectedReceiveAdapter env r ?s1 uri = expectedReceiveAdapter env r ?s0 uri"
        unfolding s01 by (rule expectedReceiveAdapter_blind [OF builder_blind])
      from p u1 obtain ra where
        a1: "lookup (serviceAccounts w1) (Namespace ?s0) (CreateReceiveAdapterName env (Name ?s0) (UID ?s0)) \<noteq> None"
        and a2: "lookup (roleBindings w1) (Namespace ?s0) (CreateReceiveAdapterName env (Name ?s0) (UID ?s0)) \<noteq> None"
        and a3: "lookup (deployments w1) (Namespace ?s0) (Name (expectedReceiveAdapter env r ?s0 uri)) = Some ra"
        and a4: "\<not> IsControlledBy ra ?s0
               \<or> DeepDerivative env (SpecTemplateSpec (expectedReceiveAdapter env r ?s0 uri)) (SpecTemplateSpec ra)"
        and a5: "r1 = Ret () \<longrightarrow> IsControlledBy ra ?s0"
        by auto
      have c4: "IsControlledBy ra ?s1 = IsControlledBy ra ?s0"
        unfolding s01 by simp
      have c5: "IsControlledBy ra source1 = IsControlledBy ra ?s0"
        by (simp add: IsControlledBy_def ids1 split: option.splits)
      have "snd (snd (reconcileResourceScope env r ?v1 ?s1 uri)) = ?v1"
      proof (rule reconcileResourceScope_settled [OF lv1])
        show "lookup (serviceAccounts ?v1) (Namespace ?s1) (CreateReceiveAdapterName env (Name ?s1) (UID ?s1)) \<noteq> None"
          using a1 ids by simp
        show "lookup (roleBindings ?v1) (Namespace ?s1) (CreateReceiveAdapterName env (Name ?s1) (UID ?s1)) \<noteq> None"
          using a2 ids by simp
        show "lookup (deployments ?v1) (Namespace ?s1) (Name (expectedReceiveAdapter env r ?s1 uri)) = Some ra"
          using a3 ids exp by simp
        show "\<not> IsControlledBy ra ?s1
               \<or> DeepDerivative env (SpecTemplateSpec (expectedReceiveAdapter env r ?s1 uri)) (SpecTemplateSpec ra)"
          using a4 c4 exp by simp
      qed
      moreover obtain r2 t2 u2 where b2: "reconcileResourceScope env r ?v1 ?s1 uri = (r2, t2, u2)"
        by (cases "reconcileResourceScope env r ?v1 ?s1 uri") auto
      ultimately have "u2 = ?v1" by simp
      moreover from run2 ok2 False scope1 dest1 b2 have "w2 = u2"
        by (cases r2) (auto simp: ReconcileKind_resource)
      ultimately have wr: ?writes by simp
      from a1 obtain sa where f1: "serviceAccountLister (sync w1) (Namespace source1)
          (CreateReceiveAdapterName env (Name source1) (UID source1)) = Inr sa"
        by (auto simp: listerOf_def ids1)
      from a2 obtain rb where f2: "roleBindingLister (sync w1) (Namespace source1)
          (CreateReceiveAdapterName env (Name source1) (UID source1)) = Inr rb"
        by (auto simp: listerOf_def ids1)
      from a3 have f3: "deploymentLister (sync w1) (Namespace source1)
          (Name (expectedReceiveAdapter env r ?s1 uri)) = Inr ra"
        by (simp add: listerOf_def ids1 exp)
      from ok1 a5 c5 have f4: "res1 = Ret () \<longrightarrow> IsControlledBy ra source1"
        by simp
      from a4 c5 have f5: "IsControlledBy ra source1 \<longrightarrow>
          \<not> podSpecChanged env (SpecTemplateSpec ra) (SpecTemplateSpec (expectedReceiveAdapter env r ?s1 uri))"
        by (simp add: podSpecChanged_def exp)
      from f1 f2 f3 f4 f5 have "\<exists>sa rb ra.
            serviceAccountLister (sync w1) (Namespace source1)
                (CreateReceiveAdapterName env (Name source1) (UID source1)) = Inr sa
          \<and> roleBindingLister (sync w1) (Namespace source1)
                (CreateReceiveAdapterName env (Name source1) (UID source1)) = Inr rb
          \<and> deploymentLister (sync w1) (Namespace source1)
                (Name (expectedReceiveAdapter env r ?s1 uri)) = Inr ra
          \<and> (res1 = Ret () \<longrightarrow> IsControlledBy ra source1)
          \<and> (IsControlledBy ra source1 \<longrightarrow>
                \<not> podSpecChanged env (SpecTemplateSpec ra)
                     (SpecTemplateSpec (expectedReceiveAdapter env r ?s1 uri)))"
        by blast
      with False scope1 ok2 have ?found by simp
      with wr show ?thesis by blast
    qed
  qed
qed

text \<open>
  The example: the first reconcile of \<open>p1\<close> in the empty world returns no error and makes
  four calls; the second makes none, and finds the three objects, the deployment
  controlled by \<open>p1\<close> and with no drift.
\<close>

theorem reconcile_twice_no_writes_witness:
  "fault ex_world = (\<lambda>c. None)
   \<and> fst (ReconcileKind ex_env ex_r (sync ex_world) ex_resource) = Ret ()
   \<and> calls (snd (snd (ReconcileKind ex_env ex_r (sync ex_world) ex_resource))) =
       [CreateServiceAccount ''default'' ((ex_sa ''abc'')\<lparr>UID := ''''\<rparr>),
        CreateRoleBinding ''default'' ((ex_rb ''abc'')\<lparr>UID := ''''\<rparr>),
        DeleteDeployment ''default'' ''pingsource-p1-abc-old'',
        CreateDeployment ''default''
          ((ex_deployment ''pingsource-p1-abc'' ''abc'' ex_desired_pod)\<lparr>UID := ''''\<rparr>)]
   \<and> calls (snd (snd (ReconcileKind ex_env ex_r
          (sync (snd (snd (ReconcileKind ex_env ex_r (sync ex_world) ex_resource))))
          (fst (snd (ReconcileKind ex_env ex_r (sync ex_world) ex_resource))))))
       = calls (snd (snd (ReconcileKind ex_env ex_r (sync ex_world) ex_resource)))
   \<and> events (snd (snd (ReconcileKind ex_env ex_r
          (sync (snd (snd (ReconcileKind ex_env ex_r (sync ex_world) ex_resource))))
          (fst (snd (ReconcileKind ex_env ex_r (sync ex_world) ex_resource))))))
       = events (snd (snd (ReconcileKind ex_env ex_r (sync ex_world) ex_resource)))
   \<and> (\<exists>sa rb ra.
         serviceAccountLister (sync (snd (snd (ReconcileKind ex_env ex_r (sync ex_world) ex_resource))))
             ''default'' ''pingsource-p1-abc'' = Inr sa
       \<and> roleBindingLister (sync (snd (snd (ReconcileKind ex_env ex_r (sync ex_world) ex_resource))))
             ''default'' ''pingsource-p1-abc'' = Inr rb
       \<and> deploymentLister (sync (snd (snd (ReconcileKind ex_env ex_r (sync ex_world) ex_resource))))
             ''default'' ''pingsource-p1-abc'' = Inr ra
       \<and> IsControlledBy ra (fst (snd (ReconcileKind ex_env ex_r (sync ex_world) ex_resource)))
       \<and> \<not> podSpecChanged ex_env (SpecTemplateSpec ra) ex_desired_pod)"
proof -
  let ?R = "ReconcileKind ex_env ex_r (sync ex_world) ex_resource"
  let ?S = "fst (snd ?R)"
  let ?W = "snd (snd ?R)"
  let ?R2 = "ReconcileKind ex_env ex_r (sync ?W) ?S"
  let ?uri = "''http://svc1.default.svc.cluster.local''"
  have run1: "?R = (fst ?R, ?S, ?W)" by simp
  have run2: "?R2 = (fst ?R2, fst (snd ?R2), snd (snd ?R2))" by simp
  have nofault: "fault ex_world = (\<lambda>c. None)" by (simp add: ex_world_def)
  have sa_name: "Name (MakeServiceAccount ex_env s n) = n" for s n
    by (simp add: ex_env_def)
  have rb_name: "Name (MakeRoleBinding ex_env s n c) = n" for s n c
    by (simp add: ex_env_def)
  have mt_name: "Name (MakeMTReceiveAdapter ex_env a) = MTAdapterName a" for a
    by (simp add: ex_env_def)
  have resolver_blind: "URIFromDestinationV1 ex_env d (s\<lparr>Status := st\<rparr>) = URIFromDestinationV1 ex_env d s"
    for d s st
    by (simp add: ex_env_def ex_resolve_def)
  have builder_blind: "MakeReceiveAdapter ex_env (a\<lparr>ArgsSource := (ArgsSource a)\<lparr>Status := st\<rparr>\<rparr>)
                 = MakeReceiveAdapter ex_env a" for a st
    by (simp add: ex_env_def ex_controllerRef_def)
  have builder_controls: "IsControlledBy (MakeReceiveAdapter ex_env a) (ArgsSource a)" for a
    by (simp add: ex_env_def ex_controllerRef_def IsControlledBy_def GetControllerOf_def)
  have refl: "DeepDerivative ex_env p p" for p
    by (auto simp: ex_env_def ex_derivative_def list_all_iff)
  note T = reconcile_twice_no_writes [OF nofault sa_name rb_name mt_name resolver_blind
      builder_blind builder_controls refl run1 run2]
  have e1: "fst ?R = Ret ()"
    by (simp add: client_defs step_defs ex_defs ex_defs2 const_defs Let_def)
  have c1: "calls ?W =
       [CreateServiceAccount ''default'' ((ex_sa ''abc'')\<lparr>UID := ''''\<rparr>),
        CreateRoleBinding ''default'' ((ex_rb ''abc'')\<lparr>UID := ''''\<rparr>),
        DeleteDeployment ''default'' ''pingsource-p1-abc-old'',
        CreateDeployment ''default''
          ((ex_deployment ''pingsource-p1-abc'' ''abc'' ex_desired_pod)\<lparr>UID := ''''\<rparr>)]"
    by (simp add: client_defs step_defs ex_defs ex_defs2 const_defs Let_def)
  from ReconcileKind_source [OF run1] obtain st where s: "?S = ex_resource\<lparr>Status := st\<rparr>"
    by blast
  have e4: "Namespace ?S = ''default''" "Name ?S = ''p1''" "UID ?S = ''abc''"
    unfolding s by (simp_all add: ex_resource_def ex_source_def)
  have e2: "URIFromDestinationV1 ex_env (sinkDestination ?S) ?S = Inr ?uri"
    unfolding s
    by (simp add: resolver_blind) (simp add: sinkDestination_def ex_defs Let_def)
  have e3: "scopeOf ex_env ?S \<noteq> ScopeCluster ex_env"
    unfolding s by (simp add: scopeOf_def ex_defs Let_def)
  have e5: "CreateReceiveAdapterName ex_env ''p1'' ''abc'' = ''pingsource-p1-abc''"
    by (simp add: ex_env_def)
  have e6: "Name (expectedReceiveAdapter ex_env ex_r (mark MarkSchedule (mark (MarkSink ?uri) ?S)) ?uri)
        = ''pingsource-p1-abc''"
    and e7: "SpecTemplateSpec (expectedReceiveAdapter ex_env ex_r (mark MarkSchedule (mark (MarkSink ?uri) ?S)) ?uri)
        = ex_desired_pod"
    using e4 by (simp_all add: expectedReceiveAdapter_def ex_env_def ex_r_def ex_desired_pod_def)
  from T have w: "calls (snd (snd ?R2)) = calls ?W" "events (snd (snd ?R2)) = events ?W"
    by simp_all
  from T e2 e3 have "\<exists>sa rb ra.
        serviceAccountLister (sync ?W) (Namespace ?S)
            (CreateReceiveAdapterName ex_env (Name ?S) (UID ?S)) = Inr sa
      \<and> roleBindingLister (sync ?W) (Namespace ?S)
            (CreateReceiveAdapterName ex_env (Name ?S) (UID ?S)) = Inr rb
      \<and> deploymentLister (sync ?W) (Namespace ?S)
            (Name (expectedReceiveAdapter ex_env ex_r (mark MarkSchedule (mark (MarkSink ?uri) ?S)) ?uri)) = Inr ra
      \<and> (fst ?R = Ret () \<longrightarrow> IsControlledBy ra ?S)
      \<and> (IsControlledBy ra ?S \<longrightarrow>
            \<not> podSpecChanged ex_env (SpecTemplateSpec ra)
                 (SpecTemplateSpec (expectedReceiveAdapter ex_env ex_r
                     (mark MarkSchedule (mark (MarkSink ?uri) ?S)) ?uri)))"
    by simp
  then obtain sa rb ra where
    "serviceAccountLister (sync ?W) ''default'' ''pingsource-p1-abc'' = Inr sa"
    "roleBindingLister (sync ?W) ''default'' ''pingsource-p1-abc'' = Inr rb"
    "deploymentLister (sync ?W) ''default'' ''pingsource-p1-abc'' = Inr ra"
    "IsControlledBy ra ?S"
    "\<not> podSpecChanged ex_env (SpecTemplateSpec ra) ex_desired_pod"
    unfolding e4 e5 e6 e7 using e1 by blast
  then have f: "\<exists>sa rb ra.
         serviceAccountLister (sync ?W) ''default'' ''pingsource-p1-abc'' = Inr sa
       \<and> roleBindingLister (sync ?W) ''default'' ''pingsource-p1-abc'' = Inr rb
       \<and> deploymentLister (sync ?W) ''default'' ''pingsource-p1-abc'' = Inr ra
       \<and> IsControlledBy ra ?S
       \<and> \<not> podSpecChanged ex_env (SpecTemplateSpec ra) ex_desired_pod"
    by blast
  from nofault e1 c1 w f show ?thesis by blast
qed

subsection \<open>C3: drift check\<close>

text \<open>
  Claim C3 (the drift check is one-directional). When the desired pod spec \<open>D\<close> is a
  derivative of the live pod spec \<open>L\<close>, \<open>podSpecChanged\<close> is false; the per-source step
  that finds a deployment of its own with pod spec \<open>L\<close> returns it and leaves the world
  as it was, and so does the shared step: no update, whatever else \<open>L\<close> holds.
\<close>

theorem drift_check_one_directional:
  "DeepDerivative env D L \<Longrightarrow>
     \<not> podSpecChanged env L D
   \<and> (deploymentLister w (Namespace src) (Name (expectedReceiveAdapter env r src uri)) = Inr ra
        \<and> IsControlledBy ra src
        \<and> SpecTemplateSpec (expectedReceiveAdapter env r src uri) = D \<and> SpecTemplateSpec ra = L
      \<longrightarrow> createReceiveAdapter env r w src uri = (Ret ra, w))
   \<and> (deploymentLister w (systemNamespace env) mtadapterName = Inr d
        \<and> SpecTemplateSpec (expectedMTReceiveAdapter env r) = D \<and> SpecTemplateSpec d = L
      \<longrightarrow> reconcileMTReceiveAdapter env r w source = (Ret d, w))"
  by (auto simp: podSpecChanged_def createReceiveAdapter_reuse reconcileMTReceiveAdapter_reuse)

text \<open>
  The example: the live pod spec holds fields that the desired one does not; the desired
  is a derivative of the live, the live is not a derivative of the desired, and the
  deployment is reused, in the per-source step and in the shared step.
\<close>

theorem drift_check_one_directional_witness:
  "DeepDerivative ex_env ex_desired_pod ex_live_pod
   \<and> \<not> DeepDerivative ex_env ex_live_pod ex_desired_pod
   \<and> \<not> podSpecChanged ex_env ex_live_pod ex_desired_pod
   \<and> createReceiveAdapter ex_env ex_r
        (ex_stored [] [] [ex_deployment ''pingsource-p1-abc'' ''abc'' ex_live_pod])
        ex_marked ''http://svc1.default.svc.cluster.local''
      = (Ret (ex_deployment ''pingsource-p1-abc'' ''abc'' ex_live_pod),
         ex_stored [] [] [ex_deployment ''pingsource-p1-abc'' ''abc'' ex_live_pod])
   \<and> DeepDerivative ex_env ex_mt_desired_pod (SpecTemplateSpec ex_mt_live)
   \<and> reconcileMTReceiveAdapter ex_env ex_r
        (ex_world\<lparr>deploymentLister := listerOf [(''knative-eventing'', ex_mt_live)],
                  deployments := [(''knative-eventing'', ex_mt_live)]\<rparr>) ex_marked
      = (Ret ex_mt_live,
         ex_world\<lparr>deploymentLister := listerOf [(''knative-eventing'', ex_mt_live)],
                  deployments := [(''knative-eventing'', ex_mt_live)]\<rparr>)"
proof -
  let ?d = "ex_deployment ''pingsource-p1-abc'' ''abc'' ex_live_pod"
  let ?w = "ex_stored [] [] [?d]"
  let ?v = "ex_world\<lparr>deploymentLister := listerOf [(''knative-eventing'', ex_mt_live)],
                  deployments := [(''knative-eventing'', ex_mt_live)]\<rparr>"
  let ?uri = "''http://svc1.default.svc.cluster.local''"
  have h: "DeepDerivative ex_env ex_desired_pod ex_live_pod"
    and g: "\<not> DeepDerivative ex_env ex_live_pod ex_desired_pod"
    and h': "DeepDerivative ex_env ex_mt_desired_pod (SpecTemplateSpec ex_mt_live)"
    by (simp_all add: ex_defs ex_defs2)
  have n: "Namespace ex_marked = ''default''"
    and x: "Name (expectedReceiveAdapter ex_env ex_r ex_marked ?uri) = ''pingsource-p1-abc''"
    and p: "SpecTemplateSpec (expectedReceiveAdapter ex_env ex_r ex_marked ?uri) = ex_desired_pod"
    and q: "SpecTemplateSpec ?d = ex_live_pod"
    and p': "SpecTemplateSpec (expectedMTReceiveAdapter ex_env ex_r) = ex_mt_desired_pod"
    and s: "systemNamespace ex_env = ''knative-eventing''"
    by (simp_all add: expectedReceiveAdapter_def expectedMTReceiveAdapter_def ex_defs ex_defs2
        const_defs)
  have l: "deploymentLister ?w ''default'' ''pingsource-p1-abc'' = Inr ?d"
    and l': "deploymentLister ?v ''knative-eventing'' mtadapterName = Inr ex_mt_live"
    by (simp_all add: client_defs ex_defs ex_defs2 const_defs)
  have c: "IsControlledBy ?d ex_marked"
    by (simp add: client_defs ex_defs ex_defs2 mark_def)
  note T = drift_check_one_directional [OF h, of ?w ex_marked ex_r ?uri ?d]
  note T' = drift_check_one_directional [OF h',
      where w = ?v and r = ex_r and d = ex_mt_live and source = ex_marked]
  from T n x p q l c have 1: "\<not> podSpecChanged ex_env ex_live_pod ex_desired_pod"
    and 2: "createReceiveAdapter ex_env ex_r ?w ex_marked ?uri = (Ret ?d, ?w)"
    by simp_all
  from T' p' s l' have 3: "reconcileMTReceiveAdapter ex_env ex_r ?v ex_marked = (Ret ex_mt_live, ?v)"
    by simp
  from h g 1 2 h' 3 show ?thesis by blast
qed

subsection \<open>C4: migration from the deprecated name\<close>



subsection \<open>C5: scope routing\<close>

text \<open>
  Claim C5 (scope routing), as the code has it. When the sink resolves, a source with no
  scope annotation or with the cluster value runs the shared-deployment branch, and a
  source with any other value runs the per-source branch: the resource value and an
  unrecognised value alike. No value of the annotation is an error.
\<close>

theorem scope_routing:
  assumes "URIFromDestinationV1 env (sinkDestination source) source = Inr uri"
  shows "ReconcileKind env r w source =
     (case (if Annotations source (ScopeAnnotationKey env) = None
               \<or> Annotations source (ScopeAnnotationKey env) = Some (ScopeCluster env)
            then reconcileClusterScope env r (w\<lparr>resolved := resolved w @ [sinkDestination source]\<rparr>)
                   (mark MarkSchedule (mark (MarkSink uri) source))
            else reconcileResourceScope env r (w\<lparr>resolved := resolved w @ [sinkDestination source]\<rparr>)
                   (mark MarkSchedule (mark (MarkSink uri) source)) uri) of
        (Ret u, source1, w1) \<Rightarrow> (Ret (), setCloudEventAttributes env source1, w1)
      | (Err err, source1, w1) \<Rightarrow> (Err err, source1, w1)
      | (Panic, source1, w1) \<Rightarrow> (Panic, source1, w1))"
proof (cases "Annotations source (ScopeAnnotationKey env)")
  case None
  then have "scopeOf env source = ScopeCluster env" by (simp add: scopeOf_def)
  with assms None show ?thesis by (simp add: ReconcileKind_cluster)
next
  case (Some scope)
  then have s: "scopeOf env source = scope" by (simp add: scopeOf_def)
  show ?thesis
  proof (cases "scope = ScopeCluster env")
    case True
    with assms Some s show ?thesis by (simp add: ReconcileKind_cluster)
  next
    case False
    with assms Some s show ?thesis by (simp add: ReconcileKind_resource)
  qed
qed

text \<open>
  The example: the source annotated \<open>bogus\<close> runs the per-source branch.
\<close>

theorem scope_routing_witness:
  "URIFromDestinationV1 ex_env (sinkDestination ex_bogus) ex_bogus
     = Inr ''http://svc1.default.svc.cluster.local''
   \<and> ReconcileKind ex_env ex_r ex_world ex_bogus =
       (case reconcileResourceScope ex_env ex_r (ex_world\<lparr>resolved := [sinkDestination ex_bogus]\<rparr>)
               (mark MarkSchedule (mark (MarkSink ''http://svc1.default.svc.cluster.local'') ex_bogus))
               ''http://svc1.default.svc.cluster.local'' of
          (Ret u, source1, w1) \<Rightarrow> (Ret (), setCloudEventAttributes ex_env source1, w1)
        | (Err err, source1, w1) \<Rightarrow> (Err err, source1, w1)
        | (Panic, source1, w1) \<Rightarrow> (Panic, source1, w1))"
proof -
  have h: "URIFromDestinationV1 ex_env (sinkDestination ex_bogus) ex_bogus
     = Inr ''http://svc1.default.svc.cluster.local''"
    by (simp add: sinkDestination_def ex_defs ex_defs2)
  have a: "Annotations ex_bogus (ScopeAnnotationKey ex_env) = Some ''bogus''"
    and c: "ScopeCluster ex_env = ''cluster''" and e: "resolved ex_world = []"
    by (simp_all add: ex_defs ex_defs2)
  from scope_routing [OF h, of ex_r ex_world] a c e h show ?thesis by simp
qed

text \<open>
  C5 as the specification words it routes an unrecognised value like the cluster value.
  That does not hold: in the empty world the source annotated \<open>bogus\<close> gets a service
  account, a role binding and a deployment of its own, and the same source annotated
  \<open>cluster\<close> gets the shared deployment.
\<close>

theorem unknown_scope_counterexample:
  "calls (snd (snd (ReconcileKind ex_env ex_r ex_world ex_bogus))) =
     [CreateServiceAccount ''default'' ((ex_sa ''abc'')\<lparr>UID := ''''\<rparr>),
      CreateRoleBinding ''default'' ((ex_rb ''abc'')\<lparr>UID := ''''\<rparr>),
      DeleteDeployment ''default'' ''pingsource-p1-abc-old'',
      CreateDeployment ''default'' ((ex_deployment ''pingsource-p1-abc'' ''abc'' ex_desired_pod)\<lparr>UID := ''''\<rparr>)]
   \<and> calls (snd (snd (ReconcileKind ex_env ex_r ex_world ex_cluster))) =
     [CreateDeployment ''knative-eventing'' (ex_mt_live\<lparr>UID := '''', SpecTemplateSpec := ex_mt_desired_pod\<rparr>)]
   \<and> calls (snd (snd (ReconcileKind ex_env ex_r ex_world ex_bogus)))
       \<noteq> calls (snd (snd (ReconcileKind ex_env ex_r ex_world ex_cluster)))"
  by (simp add: client_defs step_defs ex_defs ex_defs2 const_defs Let_def)

subsection \<open>C6: sink resolution\<close>

text \<open>
  Claim C6 (sink resolution), as the code has it. When the resolver fails, the reconcile
  marks the sink condition with the reason \<open>NotFound\<close> and an empty message, returns the
  warning \<open>SinkNotFound\<close>, which carries the serialised destination with its namespace
  defaulted, and leaves the world as it was but for the resolver call: no create, update
  or delete. When the resolver succeeds, the status is marked with the sink address and
  then with the schedule, and the branch of the scope runs on the source that carries both
  marks.
\<close>

theorem sink_resolution:
  "(URIFromDestinationV1 env (sinkDestination source) source = Inl err \<longrightarrow>
      ReconcileKind env r w source =
        (Err (NewEvent EventTypeWarning ''SinkNotFound'' ''Sink not found: %s''
                [S (jsonMarshal env (sinkDestination source))]),
         source\<lparr>Status := (Status source)\<lparr>Marks := Marks (Status source) @ [MarkNoSink ''NotFound'' '''']\<rparr>\<rparr>,
         w\<lparr>resolved := resolved w @ [sinkDestination source]\<rparr>))
   \<and> (URIFromDestinationV1 env (sinkDestination source) source = Inr uri \<longrightarrow>
        (\<exists>rest. Marks (Status (fst (snd (ReconcileKind env r w source))))
                  = Marks (Status source) @ [MarkSink uri, MarkSchedule] @ rest)
        \<and> ReconcileKind env r w source =
           (case (if scopeOf env source = ScopeCluster env
                  then reconcileClusterScope env r (w\<lparr>resolved := resolved w @ [sinkDestination source]\<rparr>)
                         (mark MarkSchedule (mark (MarkSink uri) source))
                  else reconcileResourceScope env r (w\<lparr>resolved := resolved w @ [sinkDestination source]\<rparr>)
                         (mark MarkSchedule (mark (MarkSink uri) source)) uri) of
              (Ret u, source1, w1) \<Rightarrow> (Ret (), setCloudEventAttributes env source1, w1)
            | (Err err, source1, w1) \<Rightarrow> (Err err, source1, w1)
            | (Panic, source1, w1) \<Rightarrow> (Panic, source1, w1)))"
proof (intro conjI impI)
  assume "URIFromDestinationV1 env (sinkDestination source) source = Inl err"
  then show "ReconcileKind env r w source =
        (Err (NewEvent EventTypeWarning ''SinkNotFound'' ''Sink not found: %s''
                [S (jsonMarshal env (sinkDestination source))]),
         source\<lparr>Status := (Status source)\<lparr>Marks := Marks (Status source) @ [MarkNoSink ''NotFound'' '''']\<rparr>\<rparr>,
         w\<lparr>resolved := resolved w @ [sinkDestination source]\<rparr>)"
    by (simp add: ReconcileKind_no_sink newWarningSinkNotFound_def mark_def)
next
  assume ok: "URIFromDestinationV1 env (sinkDestination source) source = Inr uri"
  let ?w0 = "w\<lparr>resolved := resolved w @ [sinkDestination source]\<rparr>"
  let ?s0 = "mark MarkSchedule (mark (MarkSink uri) source)"
  show eq: "ReconcileKind env r w source =
           (case (if scopeOf env source = ScopeCluster env
                  then reconcileClusterScope env r ?w0 ?s0
                  else reconcileResourceScope env r ?w0 ?s0 uri) of
              (Ret u, source1, w1) \<Rightarrow> (Ret (), setCloudEventAttributes env source1, w1)
            | (Err err, source1, w1) \<Rightarrow> (Err err, source1, w1)
            | (Panic, source1, w1) \<Rightarrow> (Panic, source1, w1))"
    using ok by (simp add: ReconcileKind_def Let_def)
  obtain res s1 w1 where br: "(if scopeOf env source = ScopeCluster env
                  then reconcileClusterScope env r ?w0 ?s0
                  else reconcileResourceScope env r ?w0 ?s0 uri) = (res, s1, w1)"
    by (cases "if scopeOf env source = ScopeCluster env
                  then reconcileClusterScope env r ?w0 ?s0
                  else reconcileResourceScope env r ?w0 ?s0 uri") auto
  then obtain rest where m: "Marks (Status s1) = Marks (Status ?s0) @ rest"
    by (auto split: if_splits dest!: reconcileClusterScope_frame reconcileResourceScope_frame)
  have "Marks (Status (fst (snd (ReconcileKind env r w source)))) = Marks (Status s1)"
    unfolding eq br by (cases res) simp_all
  with m show "\<exists>rest. Marks (Status (fst (snd (ReconcileKind env r w source))))
                  = Marks (Status source) @ [MarkSink uri, MarkSchedule] @ rest"
    by simp
qed

text \<open>
  The example: a sink that does not resolve, and one that does.
\<close>

theorem sink_resolution_witness:
  "URIFromDestinationV1 ex_env (sinkDestination ex_unresolvable) ex_unresolvable
     = Inl (StatusError StatusReasonNotFound)
   \<and> ReconcileKind ex_env ex_r ex_world ex_unresolvable =
        (Err (NewEvent EventTypeWarning ''SinkNotFound'' ''Sink not found: %s''
                [S (jsonMarshal ex_env (sinkDestination ex_unresolvable))]),
         ex_unresolvable\<lparr>Status := (Status ex_unresolvable)\<lparr>Marks := [MarkNoSink ''NotFound'' '''']\<rparr>\<rparr>,
         ex_world\<lparr>resolved := [sinkDestination ex_unresolvable]\<rparr>)
   \<and> URIFromDestinationV1 ex_env (sinkDestination ex_resource) ex_resource
     = Inr ''http://svc1.default.svc.cluster.local''
   \<and> take 2 (Marks (Status (fst (snd (ReconcileKind ex_env ex_r ex_world ex_resource)))))
       = [MarkSink ''http://svc1.default.svc.cluster.local'', MarkSchedule]"
proof -
  have h1: "URIFromDestinationV1 ex_env (sinkDestination ex_unresolvable) ex_unresolvable
     = Inl (StatusError StatusReasonNotFound)"
    by (simp add: sinkDestination_def ex_defs ex_defs2)
  have h2: "URIFromDestinationV1 ex_env (sinkDestination ex_resource) ex_resource
     = Inr ''http://svc1.default.svc.cluster.local''"
    by (simp add: sinkDestination_def ex_defs ex_defs2)
  have e: "resolved ex_world = []" "Marks (Status ex_unresolvable) = []"
    "Marks (Status ex_resource) = []"
    by (simp_all add: ex_defs ex_defs2)
  note T1 = sink_resolution [of ex_env ex_unresolvable "StatusError StatusReasonNotFound" ex_r ex_world]
  note T2 = sink_resolution [of ex_env ex_resource _ ex_r ex_world "''http://svc1.default.svc.cluster.local''"]
  from T1 h1 e have 1: "ReconcileKind ex_env ex_r ex_world ex_unresolvable =
        (Err (NewEvent EventTypeWarning ''SinkNotFound'' ''Sink not found: %s''
                [S (jsonMarshal ex_env (sinkDestination ex_unresolvable))]),
         ex_unresolvable\<lparr>Status := (Status ex_unresolvable)\<lparr>Marks := [MarkNoSink ''NotFound'' '''']\<rparr>\<rparr>,
         ex_world\<lparr>resolved := [sinkDestination ex_unresolvable]\<rparr>)"
    by simp
  from T2 h2 e obtain rest where
    "Marks (Status (fst (snd (ReconcileKind ex_env ex_r ex_world ex_resource))))
       = [MarkSink ''http://svc1.default.svc.cluster.local'', MarkSchedule] @ rest"
    by auto
  then have 2: "take 2 (Marks (Status (fst (snd (ReconcileKind ex_env ex_r ex_world ex_resource)))))
       = [MarkSink ''http://svc1.default.svc.cluster.local'', MarkSchedule]"
    by simp
  from h1 1 h2 2 show ?thesis by blast
qed

text \<open>
  C6 as the specification words it puts the serialised reference on the sink condition.
  That does not hold: the condition is marked with an empty message, and the serialised
  reference is not empty.
\<close>

theorem sink_condition_message_counterexample:
  "Marks (Status (fst (snd (ReconcileKind ex_env ex_r ex_world ex_unresolvable))))
     = [MarkNoSink ''NotFound'' '''']
   \<and> jsonMarshal ex_env (sinkDestination ex_unresolvable) \<noteq> ''''
   \<and> Marks (Status (fst (snd (ReconcileKind ex_env ex_r ex_world ex_unresolvable))))
     \<noteq> [MarkNoSink ''NotFound'' (jsonMarshal ex_env (sinkDestination ex_unresolvable))]"
  by (simp add: client_defs step_defs ex_defs ex_defs2 const_defs Let_def)

subsection \<open>C7: failures of the store\<close>




subsection \<open>C8: events of failed calls\<close>




subsection \<open>C9: namespace defaulting\<close>

text \<open>
  Claim C9 (namespace defaulting). A reconcile calls the resolver once, with
  \<open>sinkDestination source\<close>: the sink of the spec, in which a reference with an empty
  namespace has the namespace of the source, and any other reference and the URI are as
  in the spec. The spec of the source is the same after the reconcile. The reconcile
  depends on the resolver through its answer for this destination and this source only.
\<close>

theorem namespace_defaulting:
  "resolved (snd (snd (ReconcileKind env r w source))) = resolved w @ [sinkDestination source]
   \<and> Ref (sinkDestination source) =
        map_option (\<lambda>ref. if refNamespace ref = '''' then ref\<lparr>refNamespace := Namespace source\<rparr> else ref)
          (Ref (Sink (Spec source)))
   \<and> URI (sinkDestination source) = URI (Sink (Spec source))
   \<and> Spec (fst (snd (ReconcileKind env r w source))) = Spec source
   \<and> (f (sinkDestination source) source = URIFromDestinationV1 env (sinkDestination source) source
        \<longrightarrow> ReconcileKind (env\<lparr>URIFromDestinationV1 := f\<rparr>) r w source = ReconcileKind env r w source)"
proof -
  obtain res s' w' where run: "ReconcileKind env r w source = (res, s', w')"
    by (cases "ReconcileKind env r w source") auto
  from ReconcileKind_frame [OF run] run
  have a: "resolved (snd (snd (ReconcileKind env r w source))) = resolved w @ [sinkDestination source]"
    and b: "Spec (fst (snd (ReconcileKind env r w source))) = Spec source"
    by simp_all
  have c: "Ref (sinkDestination source) =
        map_option (\<lambda>ref. if refNamespace ref = '''' then ref\<lparr>refNamespace := Namespace source\<rparr> else ref)
          (Ref (Sink (Spec source)))"
    and d: "URI (sinkDestination source) = URI (Sink (Spec source))"
    by (simp_all add: sinkDestination_def Let_def split: option.splits)
  have e: "ReconcileKind (env\<lparr>URIFromDestinationV1 := f\<rparr>) r w source = ReconcileKind env r w source"
    if "f (sinkDestination source) source = URIFromDestinationV1 env (sinkDestination source) source"
    using that
    by (simp add: ReconcileKind_def Let_def scopeOf_def newWarningSinkNotFound_def
        setCloudEventAttributes_def
        cong: sum.case_cong option.case_cong prod.case_cong ret.case_cong if_cong)
  from a b c d e show ?thesis by blast
qed

text \<open>
  The example: the reference to \<open>svc1\<close> with no namespace is resolved in \<open>default\<close>.
\<close>

theorem namespace_defaulting_witness:
  "sinkDestination ex_resource =
     \<lparr>Ref = Some \<lparr>refKind = ''Service'', refNamespace = ''default'', refName = ''svc1'',
                  refAPIVersion = ''v1''\<rparr>, URI = None\<rparr>
   \<and> resolved (snd (snd (ReconcileKind ex_env ex_r ex_world ex_resource))) = [sinkDestination ex_resource]
   \<and> Spec (fst (snd (ReconcileKind ex_env ex_r ex_world ex_resource))) = Spec ex_resource
   \<and> ReconcileKind (ex_env\<lparr>URIFromDestinationV1 := (\<lambda>d s. Inr ''http://svc1.default.svc.cluster.local'')\<rparr>)
        ex_r ex_world ex_resource = ReconcileKind ex_env ex_r ex_world ex_resource"
proof -
  have d: "sinkDestination ex_resource =
     \<lparr>Ref = Some \<lparr>refKind = ''Service'', refNamespace = ''default'', refName = ''svc1'',
                  refAPIVersion = ''v1''\<rparr>, URI = None\<rparr>"
    by (simp add: sinkDestination_def ex_resource_def ex_source_def)
  have h: "(\<lambda>d s. Inr ''http://svc1.default.svc.cluster.local'') (sinkDestination ex_resource) ex_resource
        = URIFromDestinationV1 ex_env (sinkDestination ex_resource) ex_resource"
    by (simp add: d) (simp add: ex_env_def ex_resolve_def)
  have e: "resolved ex_world = []" by (simp add: ex_world_def)
  note T = namespace_defaulting [of ex_env ex_r ex_world ex_resource
      "\<lambda>d s. Inr ''http://svc1.default.svc.cluster.local''"]
  from T e have 1: "resolved (snd (snd (ReconcileKind ex_env ex_r ex_world ex_resource)))
      = [sinkDestination ex_resource]" by simp
  from T have 2: "Spec (fst (snd (ReconcileKind ex_env ex_r ex_world ex_resource))) = Spec ex_resource"
    by simp
  from T h have 3: "ReconcileKind (ex_env\<lparr>URIFromDestinationV1 := (\<lambda>d s. Inr ''http://svc1.default.svc.cluster.local'')\<rparr>)
        ex_r ex_world ex_resource = ReconcileKind ex_env ex_r ex_world ex_resource"
    by blast
  from d 1 2 3 show ?thesis by blast
qed

subsection \<open>C10: configuration callbacks\<close>




end
